theory Spec2Isabelle
  imports Main
begin

section \<open>JavaScript strings\<close>

text \<open>
  The program is TypeScript: a string is a sequence of UTF-16 code units, and \<open>length\<close>,
  \<open>slice\<close>, \<open>startsWith\<close>, \<open>includes\<close> and the regular expressions of the source all
  count code units. A string is therefore a list of code units, each a number (below
  65536 in every string of the program; no arithmetic is done on them but the case
  folding of a letter); \<open>js\<close> embeds an ASCII literal. Characters of the source beyond
  ASCII (the arrow in the settings hints, the emoji of the log lines) are written as
  their code units.
\<close>

type_synonym jschar = nat
type_synonym jsstring = "jschar list"

definition js :: "string \<Rightarrow> jsstring" where
  "js s = map of_char s"

text \<open>\<open>String(n)\<close> of a non-negative integer: its decimal digits.\<close>

fun show_nat :: "nat \<Rightarrow> jsstring" where
  "show_nat n = (if n < 10 then [48 + n] else show_nat (n div 10) @ [48 + n mod 10])"

declare show_nat.simps [simp del]

fun startsWith :: "jsstring \<Rightarrow> jsstring \<Rightarrow> bool" where
  "startsWith s [] = True"
| "startsWith [] (p # ps) = False"
| "startsWith (c # cs) (p # ps) = (c = p \<and> startsWith cs ps)"

fun js_includes :: "jsstring \<Rightarrow> jsstring \<Rightarrow> bool" where
  "js_includes [] sub = (sub = [])"
| "js_includes (c # cs) sub = (startsWith (c # cs) sub \<or> js_includes cs sub)"

text \<open>\<open>s.slice(-n)\<close>: the last \<open>n\<close> code units, the whole string when it is shorter.\<close>

definition slice_last :: "nat \<Rightarrow> jsstring \<Rightarrow> jsstring" where
  "slice_last n s = drop (length s - n) s"

text \<open>
  \<open>s.trim()\<close> removes white space and line terminators at both ends: the code units the
  ECMAScript standard lists for \<open>WhiteSpace\<close> and \<open>LineTerminator\<close>.
\<close>

definition is_js_space :: "jschar \<Rightarrow> bool" where
  "is_js_space c =
     (c = 9 \<or> c = 10 \<or> c = 11 \<or> c = 12 \<or> c = 13 \<or> c = 32 \<or> c = 0xA0 \<or> c = 0x1680
      \<or> (0x2000 \<le> c \<and> c \<le> 0x200A) \<or> c = 0x2028 \<or> c = 0x2029 \<or> c = 0x202F
      \<or> c = 0x205F \<or> c = 0x3000 \<or> c = 0xFEFF)"

definition js_trim :: "jsstring \<Rightarrow> jsstring" where
  "js_trim s = rev (dropWhile is_js_space (rev (dropWhile is_js_space s)))"

text \<open>\<open>s.split(sep)\<close> for a separator of one code unit: never an empty array.\<close>

fun js_split :: "jschar \<Rightarrow> jsstring \<Rightarrow> jsstring list" where
  "js_split d [] = [[]]"
| "js_split d (c # cs) =
     (if c = d then [] # js_split d cs
      else (case js_split d cs of [] \<Rightarrow> [[c]] | l # ls \<Rightarrow> (c # l) # ls))"

fun js_join :: "jsstring \<Rightarrow> jsstring list \<Rightarrow> jsstring" where
  "js_join sep [] = []"
| "js_join sep [x] = x"
| "js_join sep (x # y # ys) = x @ sep @ js_join sep (y # ys)"

text \<open>\<open>s.replace(pat, '')\<close> for a string pattern: the first occurrence is removed.\<close>

fun remove_first :: "jsstring \<Rightarrow> jsstring \<Rightarrow> jsstring" where
  "remove_first pat [] = []"
| "remove_first pat (c # cs) =
     (if startsWith (c # cs) pat then drop (length pat) (c # cs)
      else c # remove_first pat cs)"

section \<open>Regular expressions of the source\<close>

text \<open>
  The source's regular expressions are alternatives of sequences of literal characters,
  an optional literal (\<open>s?\<close>) and an optional wildcard (\<open>.?\<close>). \<open>RegExp.test\<close> asks
  whether some alternative matches at some position, so a Boolean matcher is enough.
  With the \<open>i\<close> flag and no \<open>u\<close> flag two code units match when their canonical forms
  are equal; the canonical form of an ASCII letter is its upper case, and a code unit
  from 128 on is never canonicalised into ASCII, so on the ASCII patterns of the source
  it is enough to fold \<open>a\<close> to \<open>z\<close>. The wildcard matches every code unit but the four
  line terminators.
\<close>

datatype rx_item = Ch jschar | OptCh jschar | OptAny

definition canonicalize :: "jschar \<Rightarrow> jschar" where
  "canonicalize c = (if 97 \<le> c \<and> c \<le> 122 then c - 32 else c)"

definition is_line_terminator :: "jschar \<Rightarrow> bool" where
  "is_line_terminator c = (c = 10 \<or> c = 13 \<or> c = 0x2028 \<or> c = 0x2029)"

definition ch_eq :: "bool \<Rightarrow> jschar \<Rightarrow> jschar \<Rightarrow> bool" where
  "ch_eq ignoreCase p c = (if ignoreCase then canonicalize p = canonicalize c else p = c)"

fun match_here :: "bool \<Rightarrow> rx_item list \<Rightarrow> jsstring \<Rightarrow> bool" where
  "match_here ic [] s = True"
| "match_here ic (Ch p # r) s =
     (case s of [] \<Rightarrow> False | c # cs \<Rightarrow> ch_eq ic p c \<and> match_here ic r cs)"
| "match_here ic (OptCh p # r) s =
     ((case s of [] \<Rightarrow> False | c # cs \<Rightarrow> ch_eq ic p c \<and> match_here ic r cs)
      \<or> match_here ic r s)"
| "match_here ic (OptAny # r) s =
     ((case s of [] \<Rightarrow> False | c # cs \<Rightarrow> \<not> is_line_terminator c \<and> match_here ic r cs)
      \<or> match_here ic r s)"

definition match_alts :: "bool \<Rightarrow> rx_item list list \<Rightarrow> jsstring \<Rightarrow> bool" where
  "match_alts ic alts s = list_ex (\<lambda>p. match_here ic p s) alts"

fun rx_search :: "bool \<Rightarrow> rx_item list list \<Rightarrow> jsstring \<Rightarrow> bool" where
  "rx_search ic alts [] = match_alts ic alts []"
| "rx_search ic alts (c # cs) = (match_alts ic alts (c # cs) \<or> rx_search ic alts cs)"

definition lit :: "string \<Rightarrow> rx_item list" where
  "lit s = map Ch (js s)"

text \<open>
  \<open>/429|500|503|overloaded|quota|rate.?limit|capacity|unavailable|keys? failed|exhausted/i\<close>
\<close>

definition retryable_pattern :: "rx_item list list" where
  "retryable_pattern =
    [lit ''429'', lit ''500'', lit ''503'', lit ''overloaded'', lit ''quota'',
     lit ''rate'' @ [OptAny] @ lit ''limit'', lit ''capacity'', lit ''unavailable'',
     lit ''key'' @ [OptCh 115] @ lit '' failed'', lit ''exhausted'']"

definition isRetryableError :: "jsstring \<Rightarrow> bool" where
  "isRetryableError errorMsg = rx_search True retryable_pattern errorMsg"

text \<open>
  The pattern as the specification prints it, with a literal space between \<open>rate\<close> and
  \<open>limit\<close>: \<open>429|500|503|overloaded|quota|rate limit|capacity|unavailable|keys? failed|exhausted\<close>.
\<close>

definition spec_retryable_pattern :: "rx_item list list" where
  "spec_retryable_pattern =
    [lit ''429'', lit ''500'', lit ''503'', lit ''overloaded'', lit ''quota'',
     lit ''rate limit'', lit ''capacity'', lit ''unavailable'',
     lit ''key'' @ [OptCh 115] @ lit '' failed'', lit ''exhausted'']"

definition spec_retryable :: "jsstring \<Rightarrow> bool" where
  "spec_retryable errorMsg = rx_search True spec_retryable_pattern errorMsg"

section \<open>Data model\<close>

datatype role = User | Assistant

record ChatMessage =
  role :: role
  content :: jsstring
  msg_images :: "jsstring list"

record AppConfig =
  googleKeys :: "jsstring list"
  openrouterKey :: jsstring
  sambaKey :: jsstring
  systemPrompt :: jsstring
  googleModels :: "jsstring list"
  openrouterModels :: "jsstring list"
  sambaModels :: "jsstring list"

datatype log_level = Info | Err | Warn

text \<open>A log entry without its timestamp (\<open>Date.now()\<close>), which no decision reads.\<close>

record LogEntry =
  level :: log_level
  message :: jsstring

datatype provider = Google | OpenRouter | SambaNova

record AutoModeConfig =
  label :: jsstring
  description :: jsstring
  provider :: provider
  models :: "jsstring list"

text \<open>
  The value every provider caller resolves to, \<open>{ text, images }\<close>; the fields carry
  a prefix since \<open>text\<close> is a keyword here.
\<close>

record response =
  res_text :: jsstring
  res_images :: "jsstring list"

record GroundingSource =
  title :: jsstring
  url :: jsstring

subsection \<open>The auto-mode table\<close>

definition AUTO_MODES :: "(jsstring \<times> AutoModeConfig) list" where
  "AUTO_MODES =
    [(js ''auto-gemini-flash'',
       \<lparr>label = js ''Gemini Fast'',
        description = js ''Flash models '' @ [0xB7] @ js '' auto-fallback'',
        provider = Google,
        models = [js ''gemini-flash-latest'', js ''gemini-3-flash-preview'',
                  js ''gemini-2.5-flash'', js ''gemini-2.0-flash'']\<rparr>),
     (js ''auto-gemini-pro'',
       \<lparr>label = js ''Gemini Pro'',
        description = js ''Pro models '' @ [0xB7] @ js '' best quality'',
        provider = Google,
        models = [js ''gemini-3-pro-preview'', js ''gemini-2.5-pro'']\<rparr>),
     (js ''auto-openrouter'',
       \<lparr>label = js ''OpenRouter'',
        description = js ''Random free model'',
        provider = OpenRouter,
        models = []\<rparr>),
     (js ''auto-samba'',
       \<lparr>label = js ''SambaNova'',
        description = js ''Fast inference '' @ [0xB7] @ js '' auto-fallback'',
        provider = SambaNova,
        models = [js ''DeepSeek-R1-0528'', js ''DeepSeek-V3.1'', js ''DeepSeek-V3-0324'',
                  js ''gpt-oss-120b'']\<rparr>),
     (js ''auto-search'',
       \<lparr>label = js ''AI Search'',
        description = js ''Google Search '' @ [0xB7] @ js '' grounded answers'',
        provider = Google,
        models = []\<rparr>)]"

text \<open>
  \<open>AUTO_MODES\<close> is an object literal, so besides its own five keys it answers to the
  property names every object inherits from \<open>Object.prototype\<close>: \<open>model in AUTO_MODES\<close>
  is true for them and \<open>AUTO_MODES[model]\<close> is the inherited value (a function, or the
  prototype itself for \<open>__proto__\<close>), an object with no \<open>provider\<close> and no \<open>models\<close>.
\<close>

definition object_prototype_properties :: "jsstring list" where
  "object_prototype_properties =
    [js ''constructor'', js ''__defineGetter__'', js ''__defineSetter__'',
     js ''hasOwnProperty'', js ''__lookupGetter__'', js ''__lookupSetter__'',
     js ''isPrototypeOf'', js ''propertyIsEnumerable'', js ''toString'', js ''valueOf'',
     js ''__proto__'', js ''toLocaleString'']"

datatype auto_lookup = OwnConfig AutoModeConfig | Inherited | Undefined

definition AUTO_MODES_get :: "jsstring \<Rightarrow> auto_lookup" where
  "AUTO_MODES_get model =
     (case map_of AUTO_MODES model of
        Some c \<Rightarrow> OwnConfig c
      | None \<Rightarrow> if model \<in> set object_prototype_properties then Inherited else Undefined)"

definition isAutoMode :: "jsstring \<Rightarrow> bool" where
  "isAutoMode model = (AUTO_MODES_get model \<noteq> Undefined)"

subsection \<open>Utility functions\<close>

definition isGoogleModel :: "jsstring \<Rightarrow> bool" where
  "isGoogleModel model =
     (if isAutoMode model
      then (case AUTO_MODES_get model of OwnConfig c \<Rightarrow> provider c = Google | _ \<Rightarrow> False)
      else startsWith model (js ''gemini''))"

text \<open>\<open>/^(DeepSeek-|gpt-oss-)/\<close>: anchored at the start, case-sensitive.\<close>

definition isSambaModel :: "jsstring \<Rightarrow> bool" where
  "isSambaModel model =
     (if isAutoMode model
      then (case AUTO_MODES_get model of OwnConfig c \<Rightarrow> provider c = SambaNova | _ \<Rightarrow> False)
      else match_alts False [lit ''DeepSeek-'', lit ''gpt-oss-''] model)"

definition getModelShortName :: "jsstring \<Rightarrow> jsstring" where
  "getModelShortName model =
     (if model = js ''auto-gemini-flash'' then js ''Auto: Flash''
      else if model = js ''auto-gemini-pro'' then js ''Auto: Pro''
      else if model = js ''auto-openrouter'' then js ''Auto: OpenRouter''
      else if model = js ''auto-samba'' then js ''Auto: Samba''
      else if model = js ''auto-search'' then js ''AI Search''
      else if js_includes model (js ''/'')
      then (let short = remove_first (js '':free'') (last (js_split 47 model))
            in if short \<noteq> [] then short else model)
      else model)"

section \<open>The environment and the observable effects\<close>

text \<open>
  The program talks to three HTTP services, reads a cancellation signal, draws random
  numbers and calls three callbacks. None of that is code of the program, so it is a
  parameter: a \<open>world\<close> fixes what every \<open>fetch\<close> answers, when the signal fires, how
  each shuffle comes out and what the platform's \<open>JSON.parse\<close> and \<open>URL\<close> return. The
  callbacks only append to what the caller observes, kept in \<open>state\<close>: the requests
  sent, the log entries, and the chunk and reset calls, each in order. A callback is
  taken to return normally.

  The request body (the converted messages, the system prompt, the generation settings)
  decides nothing in the functions below and is left out of a request; the answer of the
  world depends on the request's number in the call, its kind, model and key.
\<close>

datatype request =
    GeminiRequest jsstring jsstring
  | SearchRequest jsstring jsstring
  | OpenRouterRequest jsstring jsstring
  | SambaNovaRequest jsstring jsstring

datatype ui_event = Chunk jsstring | ResetContent

record state =
  requests :: "request list"
  logs :: "LogEntry list"
  ui :: "ui_event list"

definition addLog :: "log_level \<Rightarrow> jsstring \<Rightarrow> state \<Rightarrow> state" where
  "addLog l m s = s\<lparr>logs := logs s @ [\<lparr>level = l, message = m\<rparr>]\<rparr>"

definition onChunk :: "jsstring \<Rightarrow> state \<Rightarrow> state" where
  "onChunk t s = s\<lparr>ui := ui s @ [Chunk t]\<rparr>"

definition onResetContent :: "state \<Rightarrow> state" where
  "onResetContent s = s\<lparr>ui := ui s @ [ResetContent]\<rparr>"

text \<open>
  What a \<open>fetch\<close> comes to: the promise rejects (no connection, or the signal fired in
  flight) with a message; or the response is not \<open>ok\<close>, with its status and what
  \<open>response.text()\<close> gives (a rejection, \<open>Inl\<close>, or the body); or it is \<open>ok\<close> and its
  body is read chunk by chunk, each already decoded, until the reader reports it done or
  a read rejects. The stream is a finite list: that the service ends it is assumed.
\<close>

datatype stream_end = Done | ReadRejected jsstring

datatype fetch_outcome =
    FetchRejected jsstring
  | NotOk nat "jsstring + jsstring"
  | Ok "jsstring list" stream_end

text \<open>
  The parsed form of one event of the Gemini stream, with the fields the source reads,
  typed as the wire format documents them (an event with a number where a text belongs
  is outside the model). A field that is absent reads as the falsy value of its type
  (the empty string, 0, the empty list) unless it is an \<open>option\<close>; \<open>None\<close> for an
  option stands for any falsy value. \<open>stringified\<close> is \<open>JSON.stringify(data.error)\<close>.
\<close>

record InlineData =
  mimeType :: jsstring
  data :: jsstring

record Part =
  part_text :: jsstring
  inlineData :: "InlineData option"

record Web =
  uri :: jsstring
  web_title :: jsstring

record GroundingMetadata =
  groundingChunks :: "Web option list option"
  webSearchQueries :: "jsstring list option"

record Candidate =
  parts :: "Part list"
  groundingMetadata :: "GroundingMetadata option"

record StreamError =
  err_code :: nat
  err_message :: jsstring
  stringified :: jsstring

record GeminiData =
  data_error :: "StreamError option"
  candidates :: "Candidate list"
  blockReason :: jsstring

text \<open>
  \<open>aborted w n\<close> is \<open>signal?.aborted\<close> as read once \<open>n\<close> requests have been sent (no
  signal: never). \<open>shuffle w n\<close> is the outcome of \<open>[...xs].sort(() => Math.random() - 0.5)\<close>
  at that time. \<open>JSON_parse_gemini\<close> is \<open>JSON.parse\<close> followed by the typed reading
  above, \<open>None\<close> when the line is no JSON or no object. \<open>JSON_parse_delta\<close> is
  \<open>JSON.parse(line).choices?.[0]?.delta?.content\<close>, \<open>None\<close> when parsing throws or the
  field is missing. \<open>URL_hostname\<close> is \<open>new URL(u).hostname\<close>, \<open>None\<close> when the
  constructor throws. \<open>spread_undefined\<close> is the engine's message for the \<open>TypeError\<close>
  of spreading \<open>undefined\<close>.
\<close>

record world =
  fetch :: "nat \<Rightarrow> request \<Rightarrow> fetch_outcome"
  aborted :: "nat \<Rightarrow> bool"
  shuffle :: "nat \<Rightarrow> jsstring list \<Rightarrow> jsstring list"
  JSON_parse_gemini :: "jsstring \<Rightarrow> GeminiData option"
  JSON_parse_delta :: "jsstring \<Rightarrow> jsstring option"
  URL_hostname :: "jsstring \<Rightarrow> jsstring option"
  spread_undefined :: jsstring

definition do_fetch :: "world \<Rightarrow> request \<Rightarrow> state \<Rightarrow> fetch_outcome \<times> state" where
  "do_fetch w req s = (fetch w (length (requests s)) req, s\<lparr>requests := requests s @ [req]\<rparr>)"

definition signal_aborted :: "world \<Rightarrow> state \<Rightarrow> bool" where
  "signal_aborted w s = aborted w (length (requests s))"

text \<open>
  How a statement inside a loop ends: the loop goes on with the updated variables, the
  function returns, or an exception is thrown. An exception is the message of its
  \<open>Error\<close> (\<open>e instanceof Error ? e.message : String(e)\<close>).
\<close>

datatype ('a, 'r) flow = Next 'a | Return 'r | Throw jsstring

section \<open>Gemini streaming with key rotation\<close>

record gemini_acc =
  fullText :: jsstring
  images :: "jsstring list"
  gotContent :: bool

definition gemini_part :: "Part \<Rightarrow> gemini_acc \<times> state \<Rightarrow> gemini_acc \<times> state" where
  "gemini_part p = (\<lambda>(a, s).
     let (a1, s1) =
           (if part_text p \<noteq> []
            then (a\<lparr>fullText := fullText a @ part_text p, gotContent := True\<rparr>,
                  onChunk (part_text p) s)
            else (a, s))
     in (case inlineData p of
           Some d \<Rightarrow>
             (a1\<lparr>images := images a1 @ [js ''data:'' @ mimeType d @ js '';base64,'' @ data d],
                 gotContent := True\<rparr>, s1)
         | None \<Rightarrow> (a1, s1)))"

text \<open>The body of the inner \<open>try\<close>, from \<open>data.error\<close> to the loop over the parts.\<close>

definition gemini_data :: "GeminiData \<Rightarrow> gemini_acc \<Rightarrow> state \<Rightarrow> (gemini_acc, response) flow \<times> state" where
  "gemini_data d a s =
     (case data_error d of
        Some e \<Rightarrow>
          (Throw (js ''Stream error '' @ (if err_code e \<noteq> 0 then show_nat (err_code e) else [])
                  @ js '': ''
                  @ take 200 (if err_message e \<noteq> [] then err_message e else stringified e)), s)
      | None \<Rightarrow>
          (case candidates d of
             [] \<Rightarrow> if blockReason d \<noteq> [] then (Throw (js ''Prompt blocked: '' @ blockReason d), s)
                   else (Next a, s)
           | c # _ \<Rightarrow> (case fold gemini_part (parts c) (a, s) of (a', s') \<Rightarrow> (Next a', s'))))"

text \<open>One line of the stream, with the inner \<open>catch\<close>.\<close>

definition gemini_line :: "world \<Rightarrow> jsstring \<Rightarrow> gemini_acc \<Rightarrow> state \<Rightarrow> (gemini_acc, response) flow \<times> state" where
  "gemini_line w line a s =
     (if \<not> startsWith line (js ''data: '') then (Next a, s)
      else let jsonStr = js_trim (drop 6 line) in
        if jsonStr = [] \<or> jsonStr = js ''[DONE]'' then (Next a, s)
        else (case JSON_parse_gemini w jsonStr of
                None \<Rightarrow> (Next a, s)
              | Some d \<Rightarrow>
                  (case gemini_data d a s of
                     (Throw m, s') \<Rightarrow>
                       if startsWith m (js ''Stream error'') \<or> startsWith m (js ''Prompt blocked'')
                       then (if gotContent a
                             then (Return \<lparr>res_text = fullText a, res_images = images a\<rparr>,
                                   addLog Warn (js ''Stream interrupted with partial content'') s')
                             else (Throw m, s'))
                       else (Next a, s')
                   | r \<Rightarrow> r)))"

fun gemini_lines :: "world \<Rightarrow> jsstring list \<Rightarrow> gemini_acc \<Rightarrow> state \<Rightarrow> (gemini_acc, response) flow \<times> state" where
  "gemini_lines w [] a s = (Next a, s)"
| "gemini_lines w (l # ls) a s =
     (case gemini_line w l a s of
        (Next a', s') \<Rightarrow> gemini_lines w ls a' s'
      | r \<Rightarrow> r)"

text \<open>
  The \<open>while (true)\<close> loop over \<open>reader.read()\<close>. The text after the last newline stays
  in \<open>buffer\<close>; what is left there when the stream is done is not processed.
\<close>

fun gemini_read :: "world \<Rightarrow> jsstring list \<Rightarrow> stream_end \<Rightarrow> jsstring \<Rightarrow> gemini_acc \<Rightarrow> state
    \<Rightarrow> (gemini_acc, response) flow \<times> state" where
  "gemini_read w [] e buffer a s =
     (case e of Done \<Rightarrow> (Next a, s) | ReadRejected m \<Rightarrow> (Throw m, s))"
| "gemini_read w (c # cs) e buffer a s =
     (let pieces = js_split 10 (buffer @ c) in
      case gemini_lines w (butlast pieces) a s of
        (Next a', s') \<Rightarrow> gemini_read w cs e (last pieces) a' s'
      | r \<Rightarrow> r)"

text \<open>The body of the outer \<open>try\<close> for one key: what it returns, or the message it throws.\<close>

definition gemini_attempt :: "world \<Rightarrow> jsstring \<Rightarrow> jsstring \<Rightarrow> nat \<Rightarrow> nat \<Rightarrow> state
    \<Rightarrow> (jsstring + response) \<times> state" where
  "gemini_attempt w model key i n s =
     (let keyHint = slice_last 6 key;
          s1 = addLog Info (js ''Key ...'' @ keyHint @ js '' ('' @ show_nat (i + 1) @ js ''/''
                            @ show_nat n @ js '')'') s
      in case do_fetch w (GeminiRequest model key) s1 of
        (FetchRejected m, s2) \<Rightarrow> (Inl m, s2)
      | (NotOk status body, s2) \<Rightarrow>
          (case body of
             Inl m \<Rightarrow> (Inl m, s2)
           | Inr errorText \<Rightarrow>
               (Inl (js ''HTTP '' @ show_nat status @ js '': '' @ take 200 errorText), s2))
      | (Ok chunks e, s2) \<Rightarrow>
          (case gemini_read w chunks e []
                  \<lparr>fullText = [], images = [], gotContent = False\<rparr> (onResetContent s2) of
             (Throw m, s3) \<Rightarrow> (Inl m, s3)
           | (Return r, s3) \<Rightarrow> (Inr r, s3)
           | (Next a, s3) \<Rightarrow>
               if \<not> gotContent a \<and> fullText a = [] \<and> length (images a) = 0
               then (Inl (js ''Empty response from model''), s3)
               else (Inr \<lparr>res_text = fullText a, res_images = images a\<rparr>,
                     addLog Info ([0x2190] @ js '' OK via ...'' @ keyHint @ js '' (''
                       @ show_nat (length (fullText a)) @ js '' chars''
                       @ (if length (images a) \<noteq> 0
                          then js '', '' @ show_nat (length (images a)) @ js '' imgs'' else [])
                       @ js '')'') s3)))"

text \<open>
  The \<open>for\<close> loop over the shuffled keys with the outer \<open>catch\<close>; \<open>i\<close> is the index of
  \<open>key\<close> and \<open>n\<close> the number of keys. The array \<open>errors\<close> of the source is written and
  never read, and is left out.
\<close>

fun gemini_keys :: "world \<Rightarrow> jsstring \<Rightarrow> nat \<Rightarrow> jsstring list \<Rightarrow> nat \<Rightarrow> state
    \<Rightarrow> (jsstring + response) \<times> state" where
  "gemini_keys w model n [] i s =
     (Inl (js ''All '' @ show_nat n @ js '' keys failed for '' @ model @ js ''.''),
      addLog Err (js ''All '' @ show_nat n @ js '' keys exhausted for '' @ model) s)"
| "gemini_keys w model n (key # rest) i s =
     (if signal_aborted w s then (Inl (js ''Request aborted''), s)
      else (case gemini_attempt w model key i n s of
              (Inr r, s') \<Rightarrow> (Inr r, s')
            | (Inl errMsg, s') \<Rightarrow>
                if js_includes errMsg (js ''abort'') then (Inl errMsg, s')
                else let s'' = addLog Warn (js ''Key ...'' @ slice_last 6 key @ js '' failed: ''
                                            @ take 80 errMsg) s'
                     in if \<not> isRetryableError errMsg then (Inl errMsg, s'')
                        else gemini_keys w model n rest (i + 1) s''))"

definition callGeminiStreaming :: "world \<Rightarrow> jsstring \<Rightarrow> jsstring list \<Rightarrow> state
    \<Rightarrow> (jsstring + response) \<times> state" where
  "callGeminiStreaming w model keys s =
     (if length keys = 0
      then (Inl (js ''No Google API keys configured. Go to Settings '' @ [0x2192]
                 @ js '' API Keys.''), s)
      else let shuffledKeys = shuffle w (length (requests s)) keys;
               s1 = addLog Info ([0x2192] @ js '' Gemini ['' @ model @ js ''] '' @ [0x2014]
                                 @ js '' '' @ show_nat (length shuffledKeys) @ js '' key(s)'') s
           in gemini_keys w model (length shuffledKeys) shuffledKeys 0 s1)"

section \<open>OpenRouter and SambaNova streaming\<close>

text \<open>
  Both callers read the stream with the same loop, written twice in the source: a line
  that starts with \<open>data: \<close> and is not \<open>data: [DONE]\<close> is parsed, and a non-empty
  delta is appended and forwarded; a line that does not parse is skipped.
\<close>

definition openai_line :: "world \<Rightarrow> jsstring \<Rightarrow> jsstring \<times> state \<Rightarrow> jsstring \<times> state" where
  "openai_line w line = (\<lambda>(full, s).
     if startsWith line (js ''data: '') \<and> line \<noteq> js ''data: [DONE]''
     then (case JSON_parse_delta w (drop 6 line) of
             Some chunk \<Rightarrow>
               if chunk \<noteq> [] then (full @ chunk, onChunk chunk s) else (full, s)
           | None \<Rightarrow> (full, s))
     else (full, s))"

fun openai_read :: "world \<Rightarrow> jsstring list \<Rightarrow> stream_end \<Rightarrow> jsstring \<Rightarrow> jsstring \<Rightarrow> state
    \<Rightarrow> (jsstring + jsstring) \<times> state" where
  "openai_read w [] e buf full s =
     (case e of Done \<Rightarrow> (Inr full, s) | ReadRejected m \<Rightarrow> (Inl m, s))"
| "openai_read w (c # cs) e buf full s =
     (let pieces = js_split 10 (buf @ c) in
      case fold (openai_line w) (butlast pieces) (full, s) of
        (full', s') \<Rightarrow> openai_read w cs e (last pieces) full' s')"

definition callOpenRouter :: "world \<Rightarrow> jsstring \<Rightarrow> jsstring \<Rightarrow> state
    \<Rightarrow> (jsstring + response) \<times> state" where
  "callOpenRouter w model apiKey s =
     (if apiKey = []
      then (Inl (js ''No OpenRouter API key. Go to Settings '' @ [0x2192] @ js '' API Keys.''), s)
      else let s1 = addLog Info ([0x2192] @ js '' OpenRouter ['' @ getModelShortName model
                                 @ js '']'') s
      in case do_fetch w (OpenRouterRequest model apiKey) s1 of
        (FetchRejected m, s2) \<Rightarrow> (Inl m, s2)
      | (NotOk status body, s2) \<Rightarrow>
          (case body of
             Inl m \<Rightarrow> (Inl m, s2)
           | Inr errorText \<Rightarrow>
               (Inl (js ''OpenRouter '' @ show_nat status @ js '': '' @ take 200 errorText), s2))
      | (Ok chunks e, s2) \<Rightarrow>
          (case openai_read w chunks e [] [] s2 of
             (Inl m, s3) \<Rightarrow> (Inl m, s3)
           | (Inr full, s3) \<Rightarrow>
               (Inr \<lparr>res_text = full, res_images = []\<rparr>,
                addLog Info ([0x2190] @ js '' OpenRouter OK ('' @ show_nat (length full)
                             @ js '' chars)'') s3)))"

definition callSambaNovaStreaming :: "world \<Rightarrow> jsstring \<Rightarrow> jsstring \<Rightarrow> state
    \<Rightarrow> (jsstring + response) \<times> state" where
  "callSambaNovaStreaming w model apiKey s =
     (if apiKey = []
      then (Inl (js ''No SambaNova API key. Go to Settings '' @ [0x2192] @ js '' API Keys.''), s)
      else let s1 = addLog Info ([0x2192] @ js '' SambaNova ['' @ model @ js '']'') s
      in case do_fetch w (SambaNovaRequest model apiKey) s1 of
        (FetchRejected m, s2) \<Rightarrow> (Inl m, s2)
      | (NotOk status body, s2) \<Rightarrow>
          (case body of
             Inl m \<Rightarrow> (Inl m, s2)
           | Inr errorText \<Rightarrow>
               (Inl (js ''SambaNova '' @ show_nat status @ js '': '' @ take 200 errorText), s2))
      | (Ok chunks e, s2) \<Rightarrow>
          (case openai_read w chunks e [] [] s2 of
             (Inl m, s3) \<Rightarrow> (Inl m, s3)
           | (Inr full, s3) \<Rightarrow>
               (Inr \<lparr>res_text = full, res_images = []\<rparr>,
                addLog Info ([0x2190] @ js '' SambaNova OK ('' @ show_nat (length full)
                             @ js '' chars)'') s3)))"

section \<open>Search mode\<close>

record search_result =
  sr_text :: jsstring
  sr_sources :: "GroundingSource list"

record search_acc =
  searchText :: jsstring
  sources :: "GroundingSource list"
  gotSearchContent :: bool

definition search_part :: "Part \<Rightarrow> search_acc \<times> state \<Rightarrow> search_acc \<times> state" where
  "search_part p = (\<lambda>(a, s).
     if part_text p \<noteq> []
     then (a\<lparr>searchText := searchText a @ part_text p, gotSearchContent := True\<rparr>,
           onChunk (part_text p) s)
     else (a, s))"

text \<open>One grounding chunk: a source is added when its URL is not among the sources yet.\<close>

definition search_chunk :: "Web option \<Rightarrow> GroundingSource list \<Rightarrow> GroundingSource list" where
  "search_chunk chunk srcs =
     (case chunk of
        None \<Rightarrow> srcs
      | Some wb \<Rightarrow>
          if uri wb \<noteq> []
          then (if \<not> list_ex (\<lambda>s. url s = uri wb) srcs
                then srcs @ [\<lparr>title = web_title wb, url = uri wb\<rparr>]
                else srcs)
          else srcs)"

text \<open>
  The body of the inner \<open>try\<close> of the search caller. Its loop over
  \<open>groundingSupports\<close> has an empty body and is left out.
\<close>

definition search_data :: "GeminiData \<Rightarrow> search_acc \<Rightarrow> state \<Rightarrow> (search_acc, search_result) flow \<times> state" where
  "search_data d a s =
     (case data_error d of
        Some e \<Rightarrow>
          (Throw (js ''Stream error: ''
                  @ take 200 (if err_message e \<noteq> [] then err_message e else stringified e)), s)
      | None \<Rightarrow>
          (case candidates d of
             [] \<Rightarrow> (Next a, s)
           | candidate # _ \<Rightarrow>
               (case fold search_part (parts candidate) (a, s) of
                  (a1, s1) \<Rightarrow>
                    (case groundingMetadata candidate of
                       None \<Rightarrow> (Next a1, s1)
                     | Some groundingMeta \<Rightarrow>
                         (Next (case groundingChunks groundingMeta of
                                  None \<Rightarrow> a1
                                | Some chunks \<Rightarrow> a1\<lparr>sources := fold search_chunk chunks (sources a1)\<rparr>),
                          (case webSearchQueries groundingMeta of
                             None \<Rightarrow> s1
                           | Some qs \<Rightarrow>
                               addLog Info ([0xD83D, 0xDD0E] @ js '' Search queries: ''
                                            @ js_join (js '' | '') qs) s1))))))"

definition search_line :: "world \<Rightarrow> jsstring \<Rightarrow> search_acc \<Rightarrow> state \<Rightarrow> (search_acc, search_result) flow \<times> state" where
  "search_line w line a s =
     (if \<not> startsWith line (js ''data: '') then (Next a, s)
      else let jsonStr = js_trim (drop 6 line) in
        if jsonStr = [] \<or> jsonStr = js ''[DONE]'' then (Next a, s)
        else (case JSON_parse_gemini w jsonStr of
                None \<Rightarrow> (Next a, s)
              | Some d \<Rightarrow>
                  (case search_data d a s of
                     (Throw m, s') \<Rightarrow>
                       if startsWith m (js ''Stream error'')
                       then (if gotSearchContent a
                             then (Return \<lparr>sr_text = searchText a, sr_sources = sources a\<rparr>,
                                   addLog Warn (js ''Stream interrupted with partial content'') s')
                             else (Throw m, s'))
                       else (Next a, s')
                   | r \<Rightarrow> r)))"

text \<open>The loops over the lines and over the reads of the search caller, as in the Gemini caller.\<close>

fun search_lines :: "world \<Rightarrow> jsstring list \<Rightarrow> search_acc \<Rightarrow> state \<Rightarrow> (search_acc, search_result) flow \<times> state" where
  "search_lines w [] a s = (Next a, s)"
| "search_lines w (l # ls) a s =
     (case search_line w l a s of
        (Next a', s') \<Rightarrow> search_lines w ls a' s'
      | r \<Rightarrow> r)"

fun search_read :: "world \<Rightarrow> jsstring list \<Rightarrow> stream_end \<Rightarrow> jsstring \<Rightarrow> search_acc \<Rightarrow> state
    \<Rightarrow> (search_acc, search_result) flow \<times> state" where
  "search_read w [] e buffer a s =
     (case e of Done \<Rightarrow> (Next a, s) | ReadRejected m \<Rightarrow> (Throw m, s))"
| "search_read w (c # cs) e buffer a s =
     (let pieces = js_split 10 (buffer @ c) in
      case search_lines w (butlast pieces) a s of
        (Next a', s') \<Rightarrow> search_read w cs e (last pieces) a' s'
      | r \<Rightarrow> r)"

text \<open>The body of the \<open>try\<close> of the search caller for one model and key; it calls no reset.\<close>

definition search_attempt :: "world \<Rightarrow> jsstring \<Rightarrow> jsstring \<Rightarrow> state
    \<Rightarrow> (jsstring + search_result) \<times> state" where
  "search_attempt w model key s =
     (let keyHint = slice_last 6 key;
          s1 = addLog Info ([0xD83D, 0xDD0D] @ js '' Searching via '' @ model @ js '' ...''
                            @ keyHint) s
      in case do_fetch w (SearchRequest model key) s1 of
        (FetchRejected m, s2) \<Rightarrow> (Inl m, s2)
      | (NotOk status body, s2) \<Rightarrow>
          (case body of
             Inl m \<Rightarrow> (Inl m, s2)
           | Inr errorText \<Rightarrow>
               if js_includes errorText (js ''not supported'')
                  \<or> js_includes errorText (js ''FAILED_PRECONDITION'')
               then (Inl (js ''HTTP 400: '' @ take 200 errorText), s2)
               else (Inl (js ''HTTP '' @ show_nat status @ js '': '' @ take 200 errorText), s2))
      | (Ok chunks e, s2) \<Rightarrow>
          (case search_read w chunks e []
                  \<lparr>searchText = [], sources = [], gotSearchContent = False\<rparr> s2 of
             (Throw m, s3) \<Rightarrow> (Inl m, s3)
           | (Return r, s3) \<Rightarrow> (Inr r, s3)
           | (Next a, s3) \<Rightarrow>
               if \<not> gotSearchContent a \<and> searchText a = []
               then (Inl (js ''Empty search response''), s3)
               else (Inr \<lparr>sr_text = searchText a, sr_sources = sources a\<rparr>,
                     addLog Info ([0x2713] @ js '' Search OK: '' @ show_nat (length (searchText a))
                       @ js '' chars, '' @ show_nat (length (sources a)) @ js '' sources'') s3)))"

text \<open>The inner \<open>for\<close> loop, over the keys; \<open>Next\<close> when every key failed for this model.\<close>

fun search_keys :: "world \<Rightarrow> jsstring \<Rightarrow> jsstring list \<Rightarrow> state
    \<Rightarrow> (unit, search_result) flow \<times> state" where
  "search_keys w model [] s = (Next (), s)"
| "search_keys w model (key # rest) s =
     (if signal_aborted w s then (Throw (js ''Request aborted''), s)
      else (case search_attempt w model key s of
              (Inr r, s') \<Rightarrow> (Return r, s')
            | (Inl errMsg, s') \<Rightarrow>
                if js_includes errMsg (js ''abort'') then (Throw errMsg, s')
                else if js_includes errMsg (js ''not supported'')
                        \<or> js_includes errMsg (js ''FAILED_PRECONDITION'')
                then (Throw errMsg, s')
                else search_keys w model rest
                       (addLog Warn (js ''Search '' @ model @ js '' ...'' @ slice_last 6 key
                                     @ js '': '' @ take 80 errMsg) s')))"

text \<open>The outer \<open>for\<close> loop, over the two models that support the search tool.\<close>

fun search_models :: "world \<Rightarrow> jsstring list \<Rightarrow> jsstring list \<Rightarrow> state
    \<Rightarrow> (jsstring + search_result) \<times> state" where
  "search_models w [] shuffledKeys s =
     (Inl (js ''Google Search failed with all keys/models''), s)"
| "search_models w (model # ms) shuffledKeys s =
     (case search_keys w model shuffledKeys s of
        (Next u, s') \<Rightarrow> search_models w ms shuffledKeys s'
      | (Return r, s') \<Rightarrow> (Inr r, s')
      | (Throw m, s') \<Rightarrow> (Inl m, s'))"

definition callGeminiWithSearch :: "world \<Rightarrow> jsstring list \<Rightarrow> state
    \<Rightarrow> (jsstring + search_result) \<times> state" where
  "callGeminiWithSearch w keys s =
     (let shuffledKeys = shuffle w (length (requests s)) keys;
          searchModels = [js ''gemini-2.5-flash'', js ''gemini-2.0-flash'']
      in search_models w searchModels shuffledKeys s)"

text \<open>The SambaNova loop of the fallback; \<open>Next\<close> when all three models failed.\<close>

fun fallback_samba :: "world \<Rightarrow> jsstring list \<Rightarrow> jsstring \<Rightarrow> state
    \<Rightarrow> (unit, response) flow \<times> state" where
  "fallback_samba w [] key s = (Next (), s)"
| "fallback_samba w (model # ms) key s =
     (if signal_aborted w s then (Throw (js ''aborted''), s)
      else (case callSambaNovaStreaming w model key
                   (addLog Info ([0xD83D, 0xDCDD] @ js '' Fallback via SambaNova '' @ model) s) of
              (Inr r, s') \<Rightarrow> (Return r, s')
            | (Inl errMsg, s') \<Rightarrow>
                if js_includes errMsg (js ''abort'') then (Throw errMsg, s')
                else fallback_samba w ms key s'))"

text \<open>
  The end of \<open>callFallbackSearch\<close>: the first configured OpenRouter model when there is a
  key and a model, the configuration error otherwise.
\<close>

definition fallback_openrouter :: "world \<Rightarrow> AppConfig \<Rightarrow> state \<Rightarrow> (jsstring + response) \<times> state" where
  "fallback_openrouter w config s =
     (case openrouterModels config of
        model # _ \<Rightarrow>
          if openrouterKey config \<noteq> []
          then callOpenRouter w model (openrouterKey config)
                 (addLog Info ([0xD83D, 0xDCDD] @ js '' Fallback via OpenRouter ''
                               @ getModelShortName model) s)
          else (Inl (js ''AI Search requires Google API keys (for web search) or SambaNova/OpenRouter keys (for knowledge-based answers). Add keys in Settings.''), s)
      | [] \<Rightarrow> (Inl (js ''AI Search requires Google API keys (for web search) or SambaNova/OpenRouter keys (for knowledge-based answers). Add keys in Settings.''), s))"

definition callFallbackSearch :: "world \<Rightarrow> AppConfig \<Rightarrow> state \<Rightarrow> (jsstring + response) \<times> state" where
  "callFallbackSearch w config s =
     (if sambaKey config \<noteq> []
      then (case fallback_samba w [js ''DeepSeek-V3.1'', js ''DeepSeek-V3-0324'', js ''gpt-oss-120b'']
                   (sambaKey config) s of
              (Return r, s') \<Rightarrow> (Inr r, s')
            | (Throw m, s') \<Rightarrow> (Inl m, s')
            | (Next u, s') \<Rightarrow> fallback_openrouter w config s')
      else fallback_openrouter w config s)"

text \<open>
  The block that search mode appends to the answer: for each source a line with its
  title, or the host name of its URL, or the URL when \<open>new URL\<close> throws.
\<close>

definition source_title :: "world \<Rightarrow> GroundingSource \<Rightarrow> jsstring" where
  "source_title w s =
     (if title s \<noteq> [] then title s
      else (case URL_hostname w (url s) of Some h \<Rightarrow> h | None \<Rightarrow> url s))"

definition source_line :: "world \<Rightarrow> GroundingSource \<Rightarrow> jsstring" where
  "source_line w s = js ''- ['' @ source_title w s @ js '']('' @ url s @ js '')'' @ [10]"

definition append_sources :: "world \<Rightarrow> search_result \<Rightarrow> jsstring" where
  "append_sources w result =
     (if length (sr_sources result) > 0
      then sr_text result @ [10, 10] @ js ''<!--SOURCES-->'' @ [10]
           @ concat (map (source_line w) (sr_sources result)) @ js ''<!--/SOURCES-->''
      else sr_text result)"

text \<open>The statements after the \<open>try\<close> of \<open>callSearchMode\<close>.\<close>

definition search_fallback :: "world \<Rightarrow> AppConfig \<Rightarrow> state \<Rightarrow> (jsstring + response) \<times> state" where
  "search_fallback w config s =
     callFallbackSearch w config
       (onResetContent
          (addLog Info ([0xD83D, 0xDCDD] @ js '' No Google keys '' @ [0x2014]
                        @ js '' using knowledge-based answer'') s))"

definition callSearchMode :: "world \<Rightarrow> ChatMessage list \<Rightarrow> AppConfig \<Rightarrow> state
    \<Rightarrow> (jsstring + response) \<times> state" where
  "callSearchMode w messages config s =
     (let userQuery = (case messages of [] \<Rightarrow> [] | _ # _ \<Rightarrow> content (last messages)) in
      if js_trim userQuery = [] then (Inl (js ''Empty query''), s)
      else let s1 = addLog Info ([0xD83D, 0xDD0D] @ js '' AI Search starting...'') s in
        if length (googleKeys config) > 0
        then (case callGeminiWithSearch w (googleKeys config) (onResetContent s1) of
                (Inr result, s2) \<Rightarrow>
                  (Inr \<lparr>res_text = append_sources w result, res_images = []\<rparr>, s2)
              | (Inl errMsg, s2) \<Rightarrow>
                  if js_includes errMsg (js ''abort'') then (Inl errMsg, s2)
                  else if js_includes errMsg (js ''not supported'')
                          \<or> js_includes errMsg (js ''FAILED_PRECONDITION'')
                  then (Inl errMsg, s2)
                  else search_fallback w config
                         (addLog Warn (js ''Google Search failed: '' @ take 80 errMsg
                                       @ js '', trying fallback...'') s2))
        else search_fallback w config s1)"

section \<open>Auto mode\<close>

text \<open>
  The \<open>for\<close> loop of \<open>callAutoMode\<close> over the candidates; \<open>n\<close> is their number, \<open>i\<close>
  the index of \<open>modelName\<close>.
\<close>

fun auto_models :: "world \<Rightarrow> AutoModeConfig \<Rightarrow> AppConfig \<Rightarrow> nat \<Rightarrow> jsstring list \<Rightarrow> nat
    \<Rightarrow> jsstring list \<Rightarrow> state \<Rightarrow> (jsstring + response) \<times> state" where
  "auto_models w autoConfig config n [] i allErrors s =
     (Inl (js ''Auto mode: all '' @ show_nat n
           @ js '' models failed. Check API keys or try later.'' @ [10, 10]
           @ js_join [10] allErrors),
      addLog Err (js ''Auto: all '' @ show_nat n @ js '' models failed'') s)"
| "auto_models w autoConfig config n (modelName # rest) i allErrors s =
     (if signal_aborted w s then (Inl (js ''Request aborted''), s)
      else let s1 = onResetContent
                      (addLog Info (js ''Auto: trying '' @ getModelShortName modelName @ js '' (''
                                    @ show_nat (i + 1) @ js ''/'' @ show_nat n @ js '')'') s)
      in (case (if provider autoConfig = Google
                then callGeminiStreaming w modelName (googleKeys config) s1
                else if provider autoConfig = SambaNova
                then callSambaNovaStreaming w modelName (sambaKey config) s1
                else callOpenRouter w modelName (openrouterKey config) s1) of
            (Inr r, s2) \<Rightarrow> (Inr r, s2)
          | (Inl errMsg, s2) \<Rightarrow>
              if js_includes errMsg (js ''abort'') then (Inl errMsg, s2)
              else if \<not> isRetryableError errMsg
              then (Inl errMsg,
                    addLog Err (js ''Auto: '' @ getModelShortName modelName
                                @ js '' non-retryable error: '' @ take 80 errMsg) s2)
              else auto_models w autoConfig config n rest (i + 1)
                     (allErrors @ [getModelShortName modelName @ js '': '' @ take 80 errMsg])
                     (addLog Warn (js ''Auto: '' @ getModelShortName modelName
                                   @ js '' failed, trying next...'') s2)))"

text \<open>\<open>callAutoMode\<close> from the resolution of the candidate list on, for a strategy of the table.\<close>

definition auto_run :: "world \<Rightarrow> AutoModeConfig \<Rightarrow> AppConfig \<Rightarrow> state
    \<Rightarrow> (jsstring + response) \<times> state" where
  "auto_run w autoConfig config s =
     (let try_models = (\<lambda>modelsToTry.
            auto_models w autoConfig config (length modelsToTry) modelsToTry 0 []
              (addLog Info ([0xD83D, 0xDD04] @ js '' Auto ['' @ label autoConfig @ js ''] '' @ [0x2014]
                            @ js '' '' @ show_nat (length modelsToTry) @ js '' model(s) to try'') s))
      in if provider autoConfig = OpenRouter
         then (let modelsToTry = shuffle w (length (requests s)) (openrouterModels config) in
               if length modelsToTry = 0
               then (Inl (js ''No OpenRouter models configured. Add models in Settings ''
                          @ [0x2192] @ js '' Models.''), s)
               else try_models modelsToTry)
         else if provider autoConfig = SambaNova
         then (let modelsToTry = models autoConfig in
               if length modelsToTry = 0
               then (Inl (js ''No SambaNova models configured.''), s)
               else try_models modelsToTry)
         else try_models (models autoConfig))"

text \<open>
  For an inherited property name \<open>autoConfig\<close> is truthy and has neither provider nor
  models: both comparisons of the provider fail, and the last branch spreads
  \<open>undefined\<close>, which throws.
\<close>

definition callAutoMode :: "world \<Rightarrow> jsstring \<Rightarrow> AppConfig \<Rightarrow> state
    \<Rightarrow> (jsstring + response) \<times> state" where
  "callAutoMode w autoKey config s =
     (case AUTO_MODES_get autoKey of
        Undefined \<Rightarrow> (Inl (js ''Unknown auto mode: '' @ autoKey), s)
      | Inherited \<Rightarrow> (Inl (spread_undefined w), s)
      | OwnConfig autoConfig \<Rightarrow> auto_run w autoConfig config s)"

section \<open>The router\<close>

definition generateResponse :: "world \<Rightarrow> ChatMessage list \<Rightarrow> jsstring \<Rightarrow> AppConfig \<Rightarrow> state
    \<Rightarrow> (jsstring + response) \<times> state" where
  "generateResponse w messages model config s =
     (if model = js ''auto-search'' then callSearchMode w messages config s
      else if isAutoMode model then callAutoMode w model config s
      else if isGoogleModel model
      then callGeminiStreaming w model (googleKeys config) s
      else if isSambaModel model
      then callSambaNovaStreaming w model (sambaKey config) s
      else callOpenRouter w model (openrouterKey config) s)"

section \<open>The stream as a sequence of events\<close>

text \<open>
  The vocabulary in which the claims about a Gemini stream are stated. The lines of a
  stream are what stands before each newline of its whole text, however the text is cut
  into chunks. A line carries an event when it starts with \<open>data: \<close>, is not empty or
  \<open>[DONE]\<close> after that, and parses. An event interrupts the stream when it is an error
  object, or has no candidate and a block reason; \<open>interruption_message\<close> is the error
  the source builds for it. The parts of any other event are those of its first
  candidate; \<open>part_texts\<close> are the non-empty texts among parts, in order, and
  \<open>part_images\<close> the data URIs of their inline images. \<open>advance ps\<close> is the state
  of the loop after the parts \<open>ps\<close>.
\<close>

definition stream_lines :: "jsstring list \<Rightarrow> jsstring list" where
  "stream_lines chunks = butlast (js_split 10 (concat chunks))"

definition line_event :: "world \<Rightarrow> jsstring \<Rightarrow> GeminiData option" where
  "line_event w line =
     (if startsWith line (js ''data: '')
      then (let jsonStr = js_trim (drop 6 line) in
            if jsonStr = [] \<or> jsonStr = js ''[DONE]'' then None else JSON_parse_gemini w jsonStr)
      else None)"

definition is_interruption :: "GeminiData \<Rightarrow> bool" where
  "is_interruption d = (data_error d \<noteq> None \<or> (candidates d = [] \<and> blockReason d \<noteq> []))"

definition interruption_message :: "GeminiData \<Rightarrow> jsstring" where
  "interruption_message d =
     (case data_error d of
        Some e \<Rightarrow> js ''Stream error '' @ (if err_code e \<noteq> 0 then show_nat (err_code e) else [])
                  @ js '': '' @ take 200 (if err_message e \<noteq> [] then err_message e else stringified e)
      | None \<Rightarrow> js ''Prompt blocked: '' @ blockReason d)"

definition part_texts :: "Part list \<Rightarrow> jsstring list" where
  "part_texts ps = filter (\<lambda>t. t \<noteq> []) (map part_text ps)"

definition part_images :: "Part list \<Rightarrow> jsstring list" where
  "part_images ps =
     concat (map (\<lambda>p. case inlineData p of
                         Some d \<Rightarrow> [js ''data:'' @ mimeType d @ js '';base64,'' @ data d]
                       | None \<Rightarrow> []) ps)"

definition event_parts :: "GeminiData option \<Rightarrow> Part list" where
  "event_parts ev = (case ev of None \<Rightarrow> [] | Some d \<Rightarrow> (case candidates d of [] \<Rightarrow> [] | c # _ \<Rightarrow> parts c))"

definition lines_parts :: "world \<Rightarrow> jsstring list \<Rightarrow> Part list" where
  "lines_parts w ls = concat (map (\<lambda>l. event_parts (line_event w l)) ls)"

definition interrupts :: "world \<Rightarrow> jsstring \<Rightarrow> bool" where
  "interrupts w line = (case line_event w line of None \<Rightarrow> False | Some d \<Rightarrow> is_interruption d)"

definition advance :: "Part list \<Rightarrow> gemini_acc \<times> state \<Rightarrow> gemini_acc \<times> state" where
  "advance ps = (\<lambda>(a, s).
     (\<lparr>fullText = fullText a @ concat (part_texts ps),
       images = images a @ part_images ps,
       gotContent = (gotContent a \<or> part_texts ps \<noteq> [] \<or> part_images ps \<noteq> [])\<rparr>,
      s\<lparr>ui := ui s @ map Chunk (part_texts ps)\<rparr>))"

text \<open>
  What holds of the sources of the search caller at every point of its loops: no two
  have the same URL.
\<close>

definition distinct_urls :: "(search_acc, search_result) flow \<Rightarrow> bool" where
  "distinct_urls r =
     (case r of
        Next a \<Rightarrow> distinct (map url (sources a))
      | Return res \<Rightarrow> distinct (map url (sr_sources res))
      | Throw m \<Rightarrow> True)"

section \<open>Example environments\<close>

text \<open>
  Concrete worlds on which the theorems below are run. They share the three platform
  functions: \<open>demo_parse\<close> answers as \<open>JSON.parse\<close> does on the five event lines used,
  \<open>demo_delta\<close> on one chat-completion line, and \<open>demo_hostname\<close> as \<open>URL\<close> on one
  address; every shuffle leaves the order as it is.
\<close>

definition line_hello :: jsstring where
  \<open>line_hello = js ''{"candidates":[{"content":{"parts":[{"text":"Hello "}]}}]}''\<close>

definition line_world :: jsstring where
  \<open>line_world = js ''{"candidates":[{"content":{"parts":[{"text":"world"}]}}]}''\<close>

definition line_overloaded :: jsstring where
  \<open>line_overloaded = js ''{"error":{"code":503,"message":"The model is overloaded."}}''\<close>

definition line_blocked :: jsstring where
  \<open>line_blocked = js ''{"promptFeedback":{"blockReason":"SAFETY"}}''\<close>

definition line_grounded :: jsstring where
  \<open>line_grounded = js ''{"candidates":[{"content":{"parts":[{"text":"Answer"}]},"groundingMetadata":{"groundingChunks":[{"web":{"uri":"https://example.com/a"}},{"web":{"uri":"https://example.com/a","title":"Example"}},{"web":{"uri":"no scheme"}}]}}]}''\<close>

definition text_event :: "jsstring \<Rightarrow> GeminiData" where
  "text_event t =
     \<lparr>data_error = None,
      candidates = [\<lparr>parts = [\<lparr>part_text = t, inlineData = None\<rparr>], groundingMetadata = None\<rparr>],
      blockReason = []\<rparr>"

definition demo_parse :: "jsstring \<Rightarrow> GeminiData option" where
  \<open>demo_parse l =
     (if l = line_hello then Some (text_event (js ''Hello ''))
      else if l = line_world then Some (text_event (js ''world''))
      else if l = line_overloaded
      then Some \<lparr>data_error = Some \<lparr>err_code = 503, err_message = js ''The model is overloaded.'',
                                     stringified = js ''{"code":503,"message":"The model is overloaded."}''\<rparr>,
                 candidates = [], blockReason = []\<rparr>
      else if l = line_blocked
      then Some \<lparr>data_error = None, candidates = [], blockReason = js ''SAFETY''\<rparr>
      else if l = line_grounded
      then Some \<lparr>data_error = None,
                 candidates =
                   [\<lparr>parts = [\<lparr>part_text = js ''Answer'', inlineData = None\<rparr>],
                     groundingMetadata =
                       Some \<lparr>groundingChunks =
                               Some [Some \<lparr>uri = js ''https://example.com/a'', web_title = []\<rparr>,
                                     Some \<lparr>uri = js ''https://example.com/a'',
                                           web_title = js ''Example''\<rparr>,
                                     Some \<lparr>uri = js ''no scheme'', web_title = []\<rparr>],
                             webSearchQueries = None\<rparr>\<rparr>],
                 blockReason = []\<rparr>
      else None)\<close>

definition line_delta :: jsstring where
  \<open>line_delta = js ''{"choices":[{"delta":{"content":"Hi"}}]}''\<close>

definition demo_delta :: "jsstring \<Rightarrow> jsstring option" where
  "demo_delta l = (if l = line_delta then Some (js ''Hi'') else None)"

definition demo_hostname :: "jsstring \<Rightarrow> jsstring option" where
  "demo_hostname u = (if u = js ''https://example.com/a'' then Some (js ''example.com'') else None)"

definition demo_world :: "(nat \<Rightarrow> request \<Rightarrow> fetch_outcome) \<Rightarrow> (nat \<Rightarrow> bool) \<Rightarrow> world" where
  "demo_world f ab =
     \<lparr>fetch = f, aborted = ab, shuffle = (\<lambda>n xs. xs),
      JSON_parse_gemini = demo_parse, JSON_parse_delta = demo_delta,
      URL_hostname = demo_hostname, spread_undefined = js ''undefined is not iterable''\<rparr>"

definition empty_state :: state where
  "empty_state = \<lparr>requests = [], logs = [], ui = []\<rparr>"

definition demo_config :: AppConfig where
  "demo_config =
     \<lparr>googleKeys = [js ''AIza-key-one'', js ''AIza-key-two''],
      openrouterKey = js ''sk-or-demo'',
      sambaKey = js ''samba-demo'',
      systemPrompt = js ''Be brief.'',
      googleModels = [js ''gemini-2.0-flash''],
      openrouterModels = [js ''deepseek/deepseek-r1-0528:free''],
      sambaModels = [js ''DeepSeek-V3.1'']\<rparr>"

definition user_message :: "jsstring \<Rightarrow> ChatMessage" where
  "user_message c = \<lparr>role = User, content = c, msg_images = []\<rparr>"

text \<open>A world in which nothing answers: every request gets an empty stream.\<close>

definition silent_world :: world where
  "silent_world = demo_world (\<lambda>n r. Ok [] Done) (\<lambda>n. False)"

text \<open>A world whose chat-completion services stream one delta and the end marker.\<close>

definition chat_world :: world where
  "chat_world =
     demo_world (\<lambda>n r. Ok [js ''data: '' @ line_delta @ [10], js ''data: [DONE]'' @ [10]] Done)
       (\<lambda>n. False)"

text \<open>
  A world whose first request gets the given outcome; every later request gets a stream
  with the single text \<open>Hello \<close>.
\<close>

definition first_request_world :: "fetch_outcome \<Rightarrow> world" where
  "first_request_world out =
     demo_world (\<lambda>n r. if n = 0 then out else Ok [js ''data: '' @ line_hello @ [10]] Done) (\<lambda>n. False)"

definition flash :: jsstring where
  "flash = js ''gemini-2.0-flash''"



definition auto_gemini_pro :: AutoModeConfig where
  "auto_gemini_pro =
     \<lparr>label = js ''Gemini Pro'',
      description = js ''Pro models '' @ [0xB7] @ js '' best quality'',
      provider = Google,
      models = [js ''gemini-3-pro-preview'', js ''gemini-2.5-pro'']\<rparr>"

text \<open>
  A world in which the first candidate of \<open>auto-gemini-pro\<close> is overloaded on both keys
  and every other request is answered.
\<close>

definition overloaded_model_world :: world where
  "overloaded_model_world =
     demo_world (\<lambda>n r. if r = GeminiRequest (js ''gemini-3-pro-preview'') (js ''AIza-key-one'')
                           \<or> r = GeminiRequest (js ''gemini-3-pro-preview'') (js ''AIza-key-two'')
                        then NotOk 503 (Inr (js ''The model is overloaded.''))
                        else Ok [js ''data: '' @ line_hello @ [10]] Done) (\<lambda>n. False)"


definition cancel_after_first_world :: world where
  "cancel_after_first_world = demo_world (\<lambda>n r. NotOk 503 (Inr (js ''busy''))) (\<lambda>n. 1 \<le> n)"



text \<open>
  Worlds whose first request is answered by a stream that is interrupted: after two
  texts (the stream cut into chunks in the middle of a line), at once by an error
  object, at once by a prompt block.
\<close>

definition interrupted_world :: world where
  "interrupted_world =
     first_request_world
       (Ok [js ''data: '' @ line_hello @ [10] @ js ''data: '',
            line_world @ [10] @ js ''data: '' @ line_overloaded @ [10]] Done)"

definition overloaded_world :: world where
  "overloaded_world = first_request_world (Ok [js ''data: '' @ line_overloaded @ [10]] Done)"

definition blocked_world :: world where
  "blocked_world = first_request_world (Ok [js ''data: '' @ line_blocked @ [10]] Done)"

definition overloaded_event :: GeminiData where
  \<open>overloaded_event =
     \<lparr>data_error = Some \<lparr>err_code = 503, err_message = js ''The model is overloaded.'',
                          stringified = js ''{"code":503,"message":"The model is overloaded."}''\<rparr>,
      candidates = [], blockReason = []\<rparr>\<close>

text \<open>
  A world whose search answers carry one text and three grounding chunks: two with the
  same address, the first of them without a title, and one whose address is no URL.
\<close>

definition grounded_world :: world where
  "grounded_world = demo_world (\<lambda>n r. Ok [js ''data: '' @ line_grounded @ [10]] Done) (\<lambda>n. False)"

definition grounded_result :: search_result where
  "grounded_result =
     \<lparr>sr_text = js ''Answer'',
      sr_sources = [\<lparr>title = [], url = js ''https://example.com/a''\<rparr>,
                    \<lparr>title = [], url = js ''no scheme''\<rparr>]\<rparr>"

section \<open>Running the model\<close>

text \<open>
  The equations of the program by which a call is evaluated; a proof that runs the
  program on a concrete world adds the definitions of that world.
\<close>

lemmas run_defs =
  js_def slice_last_def js_trim_def is_js_space_def show_nat.simps
  canonicalize_def is_line_terminator_def ch_eq_def match_alts_def lit_def
  retryable_pattern_def isRetryableError_def
  AUTO_MODES_def object_prototype_properties_def AUTO_MODES_get_def isAutoMode_def
  isGoogleModel_def isSambaModel_def getModelShortName_def
  addLog_def onChunk_def onResetContent_def do_fetch_def signal_aborted_def
  gemini_part_def gemini_data_def gemini_line_def gemini_attempt_def callGeminiStreaming_def
  openai_line_def callOpenRouter_def callSambaNovaStreaming_def
  search_part_def search_chunk_def search_data_def search_line_def search_attempt_def
  callGeminiWithSearch_def fallback_openrouter_def callFallbackSearch_def
  source_title_def source_line_def append_sources_def search_fallback_def callSearchMode_def
  auto_run_def callAutoMode_def generateResponse_def Let_def

section \<open>Facts about strings\<close>

lemma startsWith_append [simp]: "startsWith (p @ s) p"
  by (induction p) auto

lemma js_trim_empty_iff: "js_trim s = [] \<longleftrightarrow> list_all is_js_space s"
proof -
  have "js_trim s = [] \<longleftrightarrow> (\<forall>x\<in>set (dropWhile is_js_space s). is_js_space x)"
    by (simp add: js_trim_def dropWhile_eq_Nil_conv)
  also have "\<dots> \<longleftrightarrow> dropWhile is_js_space s = []"
  proof (cases "dropWhile is_js_space s")
    case Nil
    show ?thesis unfolding Nil by simp
  next
    case (Cons x xs)
    have "\<not> is_js_space x"
      using hd_dropWhile [of is_js_space s] unfolding Cons by simp
    then show ?thesis unfolding Cons by auto
  qed
  also have "\<dots> \<longleftrightarrow> list_all is_js_space s"
    by (simp add: dropWhile_eq_Nil_conv list_all_iff)
  finally show ?thesis .
qed

section \<open>What the stream loops leave unchanged\<close>

text \<open>
  Reading a stream sends nothing: one attempt adds exactly its own request.
\<close>

lemma addLog_requests [simp]: "requests (addLog l m s) = requests s"
  by (simp add: addLog_def)

lemma onChunk_requests [simp]: "requests (onChunk t s) = requests s"
  by (simp add: onChunk_def)

lemma onResetContent_requests [simp]: "requests (onResetContent s) = requests s"
  by (simp add: onResetContent_def)

lemma signal_aborted_addLog [simp]: "signal_aborted w (addLog l m s) = signal_aborted w s"
  by (simp add: signal_aborted_def)

lemma signal_aborted_onResetContent [simp]: "signal_aborted w (onResetContent s) = signal_aborted w s"
  by (simp add: signal_aborted_def)

lemma gemini_part_requests: "gemini_part p (a, s) = (a', s') \<Longrightarrow> requests s' = requests s"
  by (auto simp: gemini_part_def split: option.splits if_splits)

lemma fold_gemini_part_requests:
  "fold gemini_part ps (a, s) = (a', s') \<Longrightarrow> requests s' = requests s"
proof (induction ps arbitrary: a s)
  case Nil
  then show ?case by simp
next
  case (Cons p ps)
  obtain a1 s1 where p: "gemini_part p (a, s) = (a1, s1)"
    by (cases "gemini_part p (a, s)")
  with Cons.prems have "fold gemini_part ps (a1, s1) = (a', s')" by simp
  then have "requests s' = requests s1" by (rule Cons.IH)
  with gemini_part_requests [OF p] show ?case by simp
qed

lemma gemini_data_requests: "gemini_data d a s = (r, s') \<Longrightarrow> requests s' = requests s"
  by (auto simp: gemini_data_def split: option.splits list.splits prod.splits if_splits
      dest: fold_gemini_part_requests)

lemma gemini_line_requests: "gemini_line w l a s = (r, s') \<Longrightarrow> requests s' = requests s"
  by (auto simp: gemini_line_def Let_def split: option.splits prod.splits flow.splits if_splits
      dest: gemini_data_requests)

lemma gemini_lines_requests: "gemini_lines w ls a s = (r, s') \<Longrightarrow> requests s' = requests s"
proof (induction ls arbitrary: a s)
  case Nil
  then show ?case by simp
next
  case (Cons l ls)
  obtain r1 s1 where l: "gemini_line w l a s = (r1, s1)"
    by (cases "gemini_line w l a s")
  have s1: "requests s1 = requests s" by (rule gemini_line_requests [OF l])
  show ?case
  proof (cases r1)
    case (Next a1)
    with Cons.prems l have "gemini_lines w ls a1 s1 = (r, s')" by simp
    then have "requests s' = requests s1" by (rule Cons.IH)
    with s1 show ?thesis by simp
  next
    case (Return x)
    with Cons.prems l s1 show ?thesis by auto
  next
    case (Throw m)
    with Cons.prems l s1 show ?thesis by auto
  qed
qed

lemma gemini_read_requests:
  "gemini_read w cs e buf a s = (r, s') \<Longrightarrow> requests s' = requests s"
proof (induction cs arbitrary: buf a s)
  case Nil
  then show ?case by (auto split: stream_end.splits)
next
  case (Cons c cs)
  obtain r1 s1 where l: "gemini_lines w (butlast (js_split 10 (buf @ c))) a s = (r1, s1)"
    by (cases "gemini_lines w (butlast (js_split 10 (buf @ c))) a s")
  have s1: "requests s1 = requests s" by (rule gemini_lines_requests [OF l])
  show ?case
  proof (cases r1)
    case (Next a1)
    with Cons.prems l have "gemini_read w cs e (last (js_split 10 (buf @ c))) a1 s1 = (r, s')"
      by (simp add: Let_def)
    then have "requests s' = requests s1" by (rule Cons.IH)
    with s1 show ?thesis by simp
  next
    case (Return x)
    with Cons.prems l s1 show ?thesis by (auto simp: Let_def)
  next
    case (Throw m)
    with Cons.prems l s1 show ?thesis by (auto simp: Let_def)
  qed
qed

lemma gemini_attempt_requests:
  "gemini_attempt w model key i n s = (r, s') \<Longrightarrow> requests s' = requests s @ [GeminiRequest model key]"
  by (auto simp: gemini_attempt_def do_fetch_def Let_def
      split: prod.splits fetch_outcome.splits sum.splits flow.splits if_splits
      dest!: gemini_read_requests)

section \<open>A stream, line by line\<close>

text \<open>
  The read loop splits what it has received at the newlines and keeps the rest for the
  next chunk, so it processes the lines of the whole text, in order, whatever the
  chunks: \<open>gemini_read_lines\<close>. A line that does not interrupt only advances the
  accumulated text and images and forwards its texts: \<open>gemini_lines_quiet\<close>.
\<close>

lemma js_split_not_Nil [simp]: "js_split d xs \<noteq> []"
  by (induction xs) (auto split: list.splits)

lemma js_split_append:
  "js_split d (xs @ ys) = butlast (js_split d xs) @ js_split d (last (js_split d xs) @ ys)"
proof (induction xs)
  case Nil
  then show ?case by simp
next
  case (Cons c xs)
  obtain l ls where sp: "js_split d xs = l # ls"
    by (cases "js_split d xs") auto
  show ?case
  proof (cases "c = d")
    case True
    with Cons show ?thesis by simp
  next
    case False
    show ?thesis
    proof (cases ls)
      case Nil
      with False sp Cons show ?thesis by (simp split: list.splits)
    next
      case (Cons l' ls')
      with False sp Cons.IH show ?thesis by (simp split: list.splits)
    qed
  qed
qed

lemma js_split_last_no_sep: "d \<notin> set (last (js_split d xs))"
  by (induction xs) (auto split: list.splits)

lemma js_split_no_sep: "d \<notin> set xs \<Longrightarrow> js_split d xs = [xs]"
  by (induction xs) auto

lemma gemini_lines_append:
  "gemini_lines w (xs @ ys) a s =
     (case gemini_lines w xs a s of (Next a', s') \<Rightarrow> gemini_lines w ys a' s' | r \<Rightarrow> r)"
  by (induction xs arbitrary: a s) (auto split: prod.splits flow.splits)

lemma gemini_read_lines:
  assumes "10 \<notin> set buf"
  shows "gemini_read w cs e buf a s =
     (case gemini_lines w (butlast (js_split 10 (buf @ concat cs))) a s of
        (Next a', s') \<Rightarrow> (case e of Done \<Rightarrow> (Next a', s') | ReadRejected m \<Rightarrow> (Throw m, s'))
      | r \<Rightarrow> r)"
  using assms
proof (induction cs arbitrary: buf a s)
  case Nil
  then show ?case by (simp add: js_split_no_sep)
next
  case (Cons c cs)
  let ?p = "js_split 10 (buf @ c)"
  have sp: "butlast (js_split 10 (buf @ concat (c # cs)))
              = butlast ?p @ butlast (js_split 10 (last ?p @ concat cs))"
    using js_split_append [of 10 "buf @ c" "concat cs"]
    by (simp add: butlast_append)
  have ih: "\<And>a' s'. gemini_read w cs e (last ?p) a' s' =
     (case gemini_lines w (butlast (js_split 10 (last ?p @ concat cs))) a' s' of
        (Next a'', s'') \<Rightarrow> (case e of Done \<Rightarrow> (Next a'', s'') | ReadRejected m \<Rightarrow> (Throw m, s''))
      | r \<Rightarrow> r)"
    by (rule Cons.IH) (rule js_split_last_no_sep)
  show ?case
    unfolding sp gemini_lines_append
    by (simp add: Let_def ih split: prod.splits flow.splits)
qed

lemma advance_Nil [simp]: "advance [] (a, s) = (a, s)"
  by (simp add: advance_def part_texts_def part_images_def)

lemma advance_append: "advance (ps @ qs) (a, s) = advance qs (advance ps (a, s))"
  by (auto simp: advance_def part_texts_def part_images_def)

lemma gemini_part_advance: "gemini_part p (a, s) = advance [p] (a, s)"
  by (cases a; cases s)
    (auto simp: gemini_part_def advance_def part_texts_def part_images_def onChunk_def
      split: option.splits)

lemma fold_gemini_part_advance: "fold gemini_part ps (a, s) = advance ps (a, s)"
proof (induction ps arbitrary: a s)
  case Nil
  then show ?case by simp
next
  case (Cons p ps)
  obtain a1 s1 where p: "advance [p] (a, s) = (a1, s1)"
    by (cases "advance [p] (a, s)")
  have "fold gemini_part (p # ps) (a, s) = fold gemini_part ps (a1, s1)"
    by (simp add: gemini_part_advance p)
  also have "\<dots> = advance ps (advance [p] (a, s))"
    by (simp add: Cons.IH p)
  also have "\<dots> = advance (p # ps) (a, s)"
    using advance_append [of "[p]" ps a s] by simp
  finally show ?case .
qed

lemma gemini_line_event:
  "gemini_line w line a s =
     (case line_event w line of
        None \<Rightarrow> (Next a, s)
      | Some d \<Rightarrow>
          (case gemini_data d a s of
             (Throw m, s') \<Rightarrow>
               if startsWith m (js ''Stream error'') \<or> startsWith m (js ''Prompt blocked'')
               then (if gotContent a
                     then (Return \<lparr>res_text = fullText a, res_images = images a\<rparr>,
                           addLog Warn (js ''Stream interrupted with partial content'') s')
                     else (Throw m, s'))
               else (Next a, s')
           | r \<Rightarrow> r))"
  by (simp add: gemini_line_def line_event_def Let_def)

lemma gemini_data_quiet:
  assumes "\<not> is_interruption d"
  shows "gemini_data d a s =
           (Next (fst (advance (event_parts (Some d)) (a, s))),
            snd (advance (event_parts (Some d)) (a, s)))"
proof (cases "candidates d")
  case Nil
  with assms show ?thesis
    by (simp add: gemini_data_def is_interruption_def event_parts_def)
next
  case (Cons c cs)
  with assms show ?thesis
    by (simp add: gemini_data_def is_interruption_def event_parts_def fold_gemini_part_advance
        split: prod.splits)
qed

lemma gemini_data_interrupt:
  assumes "is_interruption d"
  shows "gemini_data d a s = (Throw (interruption_message d), s)"
proof (cases "data_error d")
  case None
  with assms show ?thesis
    by (simp add: gemini_data_def is_interruption_def interruption_message_def)
next
  case (Some e)
  then show ?thesis
    by (simp add: gemini_data_def interruption_message_def)
qed

lemma gemini_line_quiet:
  assumes "\<not> interrupts w line"
  shows "gemini_line w line a s =
           (Next (fst (advance (event_parts (line_event w line)) (a, s))),
            snd (advance (event_parts (line_event w line)) (a, s)))"
proof (cases "line_event w line")
  case None
  then show ?thesis
    by (simp add: gemini_line_event event_parts_def)
next
  case (Some d)
  with assms have "\<not> is_interruption d"
    by (simp add: interrupts_def)
  from gemini_data_quiet [OF this, of a s] Some show ?thesis
    by (simp add: gemini_line_event)
qed

lemma interruption_message_prefix:
  "startsWith (interruption_message d) (js ''Stream error'')
   \<or> startsWith (interruption_message d) (js ''Prompt blocked'')"
  by (cases "data_error d") (simp_all add: interruption_message_def js_def)

lemma gemini_line_interrupt:
  assumes "line_event w line = Some d" "is_interruption d"
  shows "gemini_line w line a s =
           (if gotContent a
            then (Return \<lparr>res_text = fullText a, res_images = images a\<rparr>,
                  addLog Warn (js ''Stream interrupted with partial content'') s)
            else (Throw (interruption_message d), s))"
  using interruption_message_prefix [of d]
  by (auto simp: gemini_line_event assms(1) gemini_data_interrupt [OF assms(2)])

lemma gemini_lines_quiet:
  assumes "\<forall>l\<in>set ls. \<not> interrupts w l"
  shows "gemini_lines w ls a s =
           (Next (fst (advance (lines_parts w ls) (a, s))), snd (advance (lines_parts w ls) (a, s)))"
  using assms
proof (induction ls arbitrary: a s)
  case Nil
  then show ?case by (simp add: lines_parts_def)
next
  case (Cons l ls)
  let ?e = "event_parts (line_event w l)"
  obtain a1 s1 where p: "advance ?e (a, s) = (a1, s1)"
    by (cases "advance ?e (a, s)")
  have l: "gemini_line w l a s = (Next a1, s1)"
    using Cons.prems gemini_line_quiet [of w l a s] p by simp
  have "lines_parts w (l # ls) = ?e @ lines_parts w ls"
    by (simp add: lines_parts_def)
  then have "advance (lines_parts w (l # ls)) (a, s) = advance (lines_parts w ls) (a1, s1)"
    by (simp add: advance_append p)
  with l Cons show ?case by simp
qed

lemma gemini_read_quiet:
  assumes "\<forall>l\<in>set (stream_lines chunks). \<not> interrupts w l"
  shows "gemini_read w chunks e [] a s =
     (case e of
        Done \<Rightarrow> (Next (fst (advance (lines_parts w (stream_lines chunks)) (a, s))),
                 snd (advance (lines_parts w (stream_lines chunks)) (a, s)))
      | ReadRejected m \<Rightarrow> (Throw m, snd (advance (lines_parts w (stream_lines chunks)) (a, s))))"
  using gemini_read_lines [of "[]" w chunks e a s] gemini_lines_quiet [of "stream_lines chunks" w a s] assms
  by (simp add: stream_lines_def split: stream_end.splits)

section \<open>Gemini key rotation\<close>

lemma gemini_keys_error:
  assumes "\<not> signal_aborted w s" and "gemini_attempt w model key i n s = (Inl errMsg, s')"
  shows "gemini_keys w model n (key # rest) i s =
     (if js_includes errMsg (js ''abort'') then (Inl errMsg, s')
      else if \<not> isRetryableError errMsg
      then (Inl errMsg, addLog Warn (js ''Key ...'' @ slice_last 6 key @ js '' failed: '' @ take 80 errMsg) s')
      else gemini_keys w model n rest (i + 1)
             (addLog Warn (js ''Key ...'' @ slice_last 6 key @ js '' failed: '' @ take 80 errMsg) s'))"
  using assms by (simp add: Let_def)

lemma empty_response_not_retryable:
  "\<not> isRetryableError (js ''Empty response from model'')
   \<and> \<not> js_includes (js ''Empty response from model'') (js ''abort'')"
  by (simp add: run_defs)

text \<open>
  C1 (as the code has it). When the stream of an attempt ends, none of its lines having
  interrupted it or produced a text or an image, the attempt fails with
  \<open>Empty response from model\<close>. That message does not match the retryable pattern, so
  the key loop does not go on to the next key: the whole call fails with this message,
  whatever keys remain. The final state shows the one request of the failed key, its
  two log lines and the reset.
\<close>

theorem gemini_empty_response_aborts:
  assumes "\<not> signal_aborted w s"
    and "fetch w (length (requests s)) (GeminiRequest model key) = Ok chunks Done"
    and "\<forall>l\<in>set (stream_lines chunks). \<not> interrupts w l"
    and "part_texts (lines_parts w (stream_lines chunks)) = []"
    and "part_images (lines_parts w (stream_lines chunks)) = []"
  shows "gemini_keys w model n (key # rest) i s =
           (Inl (js ''Empty response from model''),
            addLog Warn (js ''Key ...'' @ slice_last 6 key @ js '' failed: Empty response from model'')
              (onResetContent
                 ((addLog Info (js ''Key ...'' @ slice_last 6 key @ js '' ('' @ show_nat (i + 1)
                                @ js ''/'' @ show_nat n @ js '')'') s)
                    \<lparr>requests := requests s @ [GeminiRequest model key]\<rparr>)))"
proof -
  let ?s2 = "onResetContent
                 ((addLog Info (js ''Key ...'' @ slice_last 6 key @ js '' ('' @ show_nat (i + 1)
                                @ js ''/'' @ show_nat n @ js '')'') s)
                    \<lparr>requests := requests s @ [GeminiRequest model key]\<rparr>)"
  have rd: "gemini_read w chunks Done [] \<lparr>fullText = [], images = [], gotContent = False\<rparr> s2
              = (Next \<lparr>fullText = [], images = [], gotContent = False\<rparr>, s2)" for s2
    using gemini_read_quiet [OF assms(3), of Done] assms(4,5)
    by (simp add: advance_def)
  have "gemini_attempt w model key i n s = (Inl (js ''Empty response from model''), ?s2)"
    using assms(2) by (simp add: gemini_attempt_def do_fetch_def Let_def rd)
  from gemini_keys_error [OF assms(1) this] empty_response_not_retryable
  show ?thesis by (simp add: js_def)
qed

text \<open>
  C1 as claimed (the next key is tried) fails: with two keys, the first of which gets
  a stream without content and the second of which would get an answer, the call fails
  after one request.
\<close>

theorem gemini_empty_response_counterexample:
  "callGeminiStreaming (first_request_world (Ok [js ''data: [DONE]'' @ [10]] Done)) flash
     [js ''AIza-key-one'', js ''AIza-key-two''] empty_state
   = (Inl (js ''Empty response from model''),
      \<lparr>requests = [GeminiRequest flash (js ''AIza-key-one'')],
       logs = [\<lparr>level = Info, message = [0x2192] @ js '' Gemini [gemini-2.0-flash] '' @ [0x2014] @ js '' 2 key(s)''\<rparr>,
               \<lparr>level = Info, message = js ''Key ...ey-one (1/2)''\<rparr>,
               \<lparr>level = Warn, message = js ''Key ...ey-one failed: Empty response from model''\<rparr>],
       ui = [ResetContent]\<rparr>)"
  by (simp add: run_defs first_request_world_def demo_world_def flash_def empty_state_def)

theorem gemini_empty_response_aborts_witness:
  "gemini_keys (first_request_world (Ok [js ''data: [DONE]'' @ [10] @ js ''data: ''] Done)) flash 2
      [js ''AIza-key-one'', js ''AIza-key-two''] 0 empty_state
    = (Inl (js ''Empty response from model''),
       \<lparr>requests = [GeminiRequest flash (js ''AIza-key-one'')],
        logs = [\<lparr>level = Info, message = js ''Key ...ey-one (1/2)''\<rparr>,
                \<lparr>level = Warn, message = js ''Key ...ey-one failed: Empty response from model''\<rparr>],
        ui = [ResetContent]\<rparr>)"
proof -
  let ?c = "[js ''data: [DONE]'' @ [10] @ js ''data: '']"
  let ?w = "first_request_world (Ok ?c Done)"
  have a: "\<not> signal_aborted ?w empty_state" by (simp add: run_defs first_request_world_def demo_world_def flash_def empty_state_def line_event_def is_interruption_def interrupts_def stream_lines_def lines_parts_def event_parts_def part_texts_def part_images_def)
  have f: "fetch ?w (length (requests empty_state)) (GeminiRequest flash (js ''AIza-key-one'')) = Ok ?c Done"
    by (simp add: run_defs first_request_world_def demo_world_def flash_def empty_state_def line_event_def is_interruption_def interrupts_def stream_lines_def lines_parts_def event_parts_def part_texts_def part_images_def)
  have l: "stream_lines ?c = [js ''data: [DONE]'']" by (simp add: run_defs first_request_world_def demo_world_def flash_def empty_state_def line_event_def is_interruption_def interrupts_def stream_lines_def lines_parts_def event_parts_def part_texts_def part_images_def)
  have q: "\<forall>l\<in>set (stream_lines ?c). \<not> interrupts ?w l"
    unfolding l by (simp add: run_defs first_request_world_def demo_world_def flash_def empty_state_def line_event_def is_interruption_def interrupts_def stream_lines_def lines_parts_def event_parts_def part_texts_def part_images_def)
  have t: "part_texts (lines_parts ?w (stream_lines ?c)) = []"
    and u: "part_images (lines_parts ?w (stream_lines ?c)) = []"
    unfolding l by (simp_all add: run_defs first_request_world_def demo_world_def flash_def empty_state_def line_event_def is_interruption_def interrupts_def stream_lines_def lines_parts_def event_parts_def part_texts_def part_images_def)
  have e: "addLog Warn (js ''Key ...'' @ slice_last 6 (js ''AIza-key-one'')
                        @ js '' failed: Empty response from model'')
             (onResetContent
                ((addLog Info (js ''Key ...'' @ slice_last 6 (js ''AIza-key-one'') @ js '' (''
                               @ show_nat (0 + 1) @ js ''/'' @ show_nat 2 @ js '')'') empty_state)
                   \<lparr>requests := requests empty_state @ [GeminiRequest flash (js ''AIza-key-one'')]\<rparr>))
           = \<lparr>requests = [GeminiRequest flash (js ''AIza-key-one'')],
              logs = [\<lparr>level = Info, message = js ''Key ...ey-one (1/2)''\<rparr>,
                      \<lparr>level = Warn, message = js ''Key ...ey-one failed: Empty response from model''\<rparr>],
              ui = [ResetContent]\<rparr>"
    by (simp add: run_defs first_request_world_def demo_world_def flash_def empty_state_def line_event_def is_interruption_def interrupts_def stream_lines_def lines_parts_def event_parts_def part_texts_def part_images_def)
  show ?thesis
    using gemini_empty_response_aborts [OF a f q t u, where n = 2 and i = 0
        and rest = "[js ''AIza-key-two'']"]
    unfolding e .
qed

lemma ch_eq_space: "ch_eq True 32 c \<Longrightarrow> c = 32"
  by (auto simp: ch_eq_def canonicalize_def split: if_splits)

lemma rx_search_mono:
  assumes "\<And>t. match_alts ic A t \<Longrightarrow> match_alts ic B t"
  shows "rx_search ic A s \<Longrightarrow> rx_search ic B s"
  by (induction s) (auto dest: assms)

lemma rate_limit_alt:
  "match_here True (lit ''rate limit'') t \<Longrightarrow> match_here True (lit ''rate'' @ [OptAny] @ lit ''limit'') t"
  by (auto simp: lit_def js_def is_line_terminator_def split: list.splits dest!: ch_eq_space)

lemma spec_alts_imp:
  "match_alts True spec_retryable_pattern t \<Longrightarrow> match_alts True retryable_pattern t"
  using rate_limit_alt [of t]
  by (auto simp: match_alts_def spec_retryable_pattern_def retryable_pattern_def)

lemma spec_retryable_imp: "spec_retryable m \<Longrightarrow> isRetryableError m"
  unfolding spec_retryable_def isRetryableError_def
  by (rule rx_search_mono [OF spec_alts_imp])

text \<open>
  C3 (as the code has it). When the attempt on a key fails with message \<open>errMsg\<close>:
  a message that contains \<open>abort\<close> is re-raised at once; otherwise a message that
  matches the pattern of the source (with \<open>rate.?limit\<close>) makes the loop go on with
  the next key, and any other message ends the call with that message, no request
  having been sent for a later key. Every message that matches the pattern as the
  specification prints it (with \<open>rate limit\<close>) matches the pattern of the source.
\<close>

theorem gemini_key_rotation:
  assumes "\<not> signal_aborted w s" and "gemini_attempt w model key i n s = (Inl errMsg, s')"
  shows "(js_includes errMsg (js ''abort'') \<longrightarrow>
            gemini_keys w model n (key # rest) i s = (Inl errMsg, s'))
       \<and> (\<not> js_includes errMsg (js ''abort'') \<and> isRetryableError errMsg \<longrightarrow>
            gemini_keys w model n (key # rest) i s =
              gemini_keys w model n rest (i + 1)
                (addLog Warn (js ''Key ...'' @ slice_last 6 key @ js '' failed: '' @ take 80 errMsg) s'))
       \<and> (\<not> js_includes errMsg (js ''abort'') \<and> \<not> isRetryableError errMsg \<longrightarrow>
            fst (gemini_keys w model n (key # rest) i s) = Inl errMsg
            \<and> requests (snd (gemini_keys w model n (key # rest) i s))
                = requests s @ [GeminiRequest model key])
       \<and> (spec_retryable errMsg \<longrightarrow> isRetryableError errMsg)"
  using gemini_keys_error [OF assms] gemini_attempt_requests [OF assms(2)] spec_retryable_imp
  by simp

text \<open>
  C3 as claimed fails on a message that the printed pattern does not match and the
  pattern of the source does: after \<open>HTTP 400: rate-limit reached\<close> on the first key
  the second key is tried and answers.
\<close>

theorem gemini_key_rotation_counterexample:
  "\<not> spec_retryable (js ''HTTP 400: rate-limit reached'')
   \<and> \<not> js_includes (js ''HTTP 400: rate-limit reached'') (js ''abort'')
   \<and> callGeminiStreaming (first_request_world (NotOk 400 (Inr (js ''rate-limit reached'')))) flash
        [js ''AIza-key-one'', js ''AIza-key-two''] empty_state
      = (Inr \<lparr>res_text = js ''Hello '', res_images = []\<rparr>,
         \<lparr>requests = [GeminiRequest flash (js ''AIza-key-one''), GeminiRequest flash (js ''AIza-key-two'')],
          logs = [\<lparr>level = Info, message = [0x2192] @ js '' Gemini [gemini-2.0-flash] '' @ [0x2014] @ js '' 2 key(s)''\<rparr>,
                  \<lparr>level = Info, message = js ''Key ...ey-one (1/2)''\<rparr>,
                  \<lparr>level = Warn, message = js ''Key ...ey-one failed: HTTP 400: rate-limit reached''\<rparr>,
                  \<lparr>level = Info, message = js ''Key ...ey-two (2/2)''\<rparr>,
                  \<lparr>level = Info, message = [0x2190] @ js '' OK via ...ey-two (6 chars)''\<rparr>],
          ui = [ResetContent, Chunk (js ''Hello '')]\<rparr>)"
  by (simp add: run_defs first_request_world_def demo_world_def demo_parse_def line_hello_def text_event_def flash_def empty_state_def spec_retryable_pattern_def spec_retryable_def)

theorem gemini_key_rotation_witness:
  "gemini_keys (first_request_world (FetchRejected (js ''The user aborted a request.''))) flash 2
      [js ''AIza-key-one'', js ''AIza-key-two''] 0 empty_state
     = (Inl (js ''The user aborted a request.''),
        snd (gemini_attempt (first_request_world (FetchRejected (js ''The user aborted a request.'')))
               flash (js ''AIza-key-one'') 0 2 empty_state))
   \<and> gemini_keys (first_request_world (NotOk 429 (Inr (js ''Too Many Requests'')))) flash 2
      [js ''AIza-key-one'', js ''AIza-key-two''] 0 empty_state
     = gemini_keys (first_request_world (NotOk 429 (Inr (js ''Too Many Requests'')))) flash 2
         [js ''AIza-key-two''] 1
         (addLog Warn (js ''Key ...ey-one failed: HTTP 429: Too Many Requests'')
            (snd (gemini_attempt (first_request_world (NotOk 429 (Inr (js ''Too Many Requests''))))
                    flash (js ''AIza-key-one'') 0 2 empty_state)))
   \<and> fst (gemini_keys (first_request_world (NotOk 400 (Inr (js ''API key not valid'')))) flash 2
      [js ''AIza-key-one'', js ''AIza-key-two''] 0 empty_state) = Inl (js ''HTTP 400: API key not valid'')
   \<and> requests (snd (gemini_keys (first_request_world (NotOk 400 (Inr (js ''API key not valid'')))) flash 2
      [js ''AIza-key-one'', js ''AIza-key-two''] 0 empty_state)) = [GeminiRequest flash (js ''AIza-key-one'')]
   \<and> isRetryableError (js ''HTTP 429: Too Many Requests'')"
proof -
  let ?wa = "first_request_world (FetchRejected (js ''The user aborted a request.''))"
  let ?wb = "first_request_world (NotOk 429 (Inr (js ''Too Many Requests'')))"
  let ?wc = "first_request_world (NotOk 400 (Inr (js ''API key not valid'')))"
  let ?ta = "gemini_attempt ?wa flash (js ''AIza-key-one'') 0 2 empty_state"
  let ?tb = "gemini_attempt ?wb flash (js ''AIza-key-one'') 0 2 empty_state"
  let ?tc = "gemini_attempt ?wc flash (js ''AIza-key-one'') 0 2 empty_state"
  have na: "\<not> signal_aborted ?wa empty_state" by (simp add: run_defs first_request_world_def demo_world_def demo_parse_def line_hello_def text_event_def flash_def empty_state_def spec_retryable_pattern_def spec_retryable_def)
  have nb: "\<not> signal_aborted ?wb empty_state" by (simp add: run_defs first_request_world_def demo_world_def demo_parse_def line_hello_def text_event_def flash_def empty_state_def spec_retryable_pattern_def spec_retryable_def)
  have nc: "\<not> signal_aborted ?wc empty_state" by (simp add: run_defs first_request_world_def demo_world_def demo_parse_def line_hello_def text_event_def flash_def empty_state_def spec_retryable_pattern_def spec_retryable_def)
  have "fst ?ta = Inl (js ''The user aborted a request.'')" by (simp add: run_defs first_request_world_def demo_world_def demo_parse_def line_hello_def text_event_def flash_def empty_state_def spec_retryable_pattern_def spec_retryable_def)
  then have a: "?ta = (Inl (js ''The user aborted a request.''), snd ?ta)"
    by (metis prod.collapse)
  have "fst ?tb = Inl (js ''HTTP 429: Too Many Requests'')" by (simp add: run_defs first_request_world_def demo_world_def demo_parse_def line_hello_def text_event_def flash_def empty_state_def spec_retryable_pattern_def spec_retryable_def)
  then have b: "?tb = (Inl (js ''HTTP 429: Too Many Requests''), snd ?tb)"
    by (metis prod.collapse)
  have "fst ?tc = Inl (js ''HTTP 400: API key not valid'')" by (simp add: run_defs first_request_world_def demo_world_def demo_parse_def line_hello_def text_event_def flash_def empty_state_def spec_retryable_pattern_def spec_retryable_def)
  then have c: "?tc = (Inl (js ''HTTP 400: API key not valid''), snd ?tc)"
    by (metis prod.collapse)
  have ha: "js_includes (js ''The user aborted a request.'') (js ''abort'')" by (simp add: run_defs first_request_world_def demo_world_def demo_parse_def line_hello_def text_event_def flash_def empty_state_def spec_retryable_pattern_def spec_retryable_def)
  have hb: "\<not> js_includes (js ''HTTP 429: Too Many Requests'') (js ''abort'')
            \<and> spec_retryable (js ''HTTP 429: Too Many Requests'')" by (simp add: run_defs first_request_world_def demo_world_def demo_parse_def line_hello_def text_event_def flash_def empty_state_def spec_retryable_pattern_def spec_retryable_def)
  have hc: "\<not> js_includes (js ''HTTP 400: API key not valid'') (js ''abort'')
            \<and> \<not> isRetryableError (js ''HTTP 400: API key not valid'')" by (simp add: run_defs first_request_world_def demo_world_def demo_parse_def line_hello_def text_event_def flash_def empty_state_def spec_retryable_pattern_def spec_retryable_def)
  have e: "requests empty_state = []" by (simp add: empty_state_def)
  have l: "js ''Key ...'' @ slice_last 6 (js ''AIza-key-one'') @ js '' failed: ''
             @ take 80 (js ''HTTP 429: Too Many Requests'')
           = js ''Key ...ey-one failed: HTTP 429: Too Many Requests''" by (simp add: run_defs first_request_world_def demo_world_def demo_parse_def line_hello_def text_event_def flash_def empty_state_def spec_retryable_pattern_def spec_retryable_def)
  note A = gemini_key_rotation [OF na a, where rest = "[js ''AIza-key-two'']"]
  note B = gemini_key_rotation [OF nb b, where rest = "[js ''AIza-key-two'']"]
  note C = gemini_key_rotation [OF nc c, where rest = "[js ''AIza-key-two'']"]
  show ?thesis
    using A B C ha hb hc e l by simp
qed

lemma rx_search_append: "rx_search ic A t \<Longrightarrow> rx_search ic A (pre @ t)"
  by (induction pre) auto

lemma all_keys_failed_retryable:
  "isRetryableError (js ''All '' @ show_nat k @ js '' keys failed for '' @ model @ js ''.'')"
proof -
  have "rx_search True retryable_pattern (js ''keys failed for '' @ model @ js ''.'')"
    by (simp add: retryable_pattern_def match_alts_def lit_def js_def ch_eq_def canonicalize_def)
  then have "rx_search True retryable_pattern
      ((js ''All '' @ show_nat k @ js '' '') @ (js ''keys failed for '' @ model @ js ''.''))"
    by (rule rx_search_append)
  then show ?thesis
    by (simp add: isRetryableError_def js_def)
qed

lemma show_nat_no_a: "97 \<notin> set (show_nat k)"
proof (induction k rule: show_nat.induct)
  case (1 n)
  show ?case
  proof (cases "n < 10")
    case True
    then show ?thesis
      by (subst show_nat.simps) auto
  next
    case False
    then show ?thesis
      using "1" by (subst show_nat.simps) auto
  qed
qed

lemma js_includes_skip:
  "p \<notin> set ds \<Longrightarrow> js_includes (ds @ r) (p # ps) = js_includes r (p # ps)"
  by (induction ds) auto

lemma all_keys_failed_no_abort:
  assumes "\<not> js_includes (js '' keys failed for '' @ model @ js ''.'') (js ''abort'')"
  shows "\<not> js_includes (js ''All '' @ show_nat k @ js '' keys failed for '' @ model @ js ''.'') (js ''abort'')"
proof -
  have "(97 :: jschar) \<notin> set (js ''All '' @ show_nat k)"
    using show_nat_no_a [of k] by (simp add: js_def)
  from js_includes_skip [OF this, of "js '' keys failed for '' @ model @ js ''.''" "js ''bort''"]
  show ?thesis using assms by (simp add: js_def)
qed

lemma google_candidates:
  assumes "(autoKey, c) \<in> set AUTO_MODES" "provider c = Google" "modelName \<in> set (models c)"
  shows "\<not> js_includes (js '' keys failed for '' @ modelName @ js ''.'') (js ''abort'')"
  using assms by (auto simp: AUTO_MODES_def js_def)

section \<open>Interrupted streams\<close>

lemma gemini_read_interrupted:
  assumes "stream_lines chunks = pre @ line # post"
    and "\<forall>l\<in>set pre. \<not> interrupts w l"
    and "line_event w line = Some d" and "is_interruption d"
  shows "gemini_read w chunks e [] \<lparr>fullText = [], images = [], gotContent = False\<rparr> s =
     (if part_texts (lines_parts w pre) \<noteq> [] \<or> part_images (lines_parts w pre) \<noteq> []
      then (Return \<lparr>res_text = concat (part_texts (lines_parts w pre)),
                    res_images = part_images (lines_parts w pre)\<rparr>,
            addLog Warn (js ''Stream interrupted with partial content'')
              (s\<lparr>ui := ui s @ map Chunk (part_texts (lines_parts w pre))\<rparr>))
      else (Throw (interruption_message d), s))"
proof -
  let ?init = "\<lparr>fullText = [], images = [], gotContent = False\<rparr>"
  let ?ps = "lines_parts w pre"
  have pre: "gemini_lines w pre ?init s =
      (Next \<lparr>fullText = concat (part_texts ?ps), images = part_images ?ps,
             gotContent = (part_texts ?ps \<noteq> [] \<or> part_images ?ps \<noteq> [])\<rparr>,
       s\<lparr>ui := ui s @ map Chunk (part_texts ?ps)\<rparr>)"
    using gemini_lines_quiet [OF assms(2), of ?init s] by (simp add: advance_def)
  have rd: "gemini_read w chunks e [] ?init s =
     (case gemini_lines w (pre @ line # post) ?init s of
        (Next a', s') \<Rightarrow> (case e of Done \<Rightarrow> (Next a', s') | ReadRejected m \<Rightarrow> (Throw m, s'))
      | r \<Rightarrow> r)"
    using gemini_read_lines [of "[]" w chunks e ?init s] assms(1)
    by (simp add: stream_lines_def)
  show ?thesis
    unfolding rd gemini_lines_append pre
    by (simp add: gemini_line_interrupt [OF assms(3,4)])
qed

text \<open>
  C4 (as the code has it). Let the stream of an attempt have the lines \<open>pre\<close>, none
  of which interrupts, and then a line that carries an error object or a prompt block.
  If the lines before it produced a text or an image, the call succeeds: its text is
  the concatenation of exactly the texts forwarded before the error, in order, its
  images are the images received, and no further request is sent. If they produced
  nothing, the attempt fails with the message of the interruption, and the key loop
  treats it as any other failure: re-raised when it contains \<open>abort\<close>, the next key
  when it matches the retryable pattern, and the end of the whole call otherwise.
\<close>

theorem gemini_stream_interruption:
  assumes "\<not> signal_aborted w s"
    and "fetch w (length (requests s)) (GeminiRequest model key) = Ok chunks e"
    and "stream_lines chunks = pre @ line # post"
    and "\<forall>l\<in>set pre. \<not> interrupts w l"
    and "line_event w line = Some d" and "is_interruption d"
  shows "(part_texts (lines_parts w pre) \<noteq> [] \<or> part_images (lines_parts w pre) \<noteq> [] \<longrightarrow>
            fst (gemini_keys w model n (key # rest) i s)
              = Inr \<lparr>res_text = concat (part_texts (lines_parts w pre)),
                     res_images = part_images (lines_parts w pre)\<rparr>
          \<and> ui (snd (gemini_keys w model n (key # rest) i s))
              = ui s @ ResetContent # map Chunk (part_texts (lines_parts w pre))
          \<and> requests (snd (gemini_keys w model n (key # rest) i s))
              = requests s @ [GeminiRequest model key])
       \<and> (part_texts (lines_parts w pre) = [] \<and> part_images (lines_parts w pre) = [] \<longrightarrow>
            fst (gemini_attempt w model key i n s) = Inl (interruption_message d)
          \<and> gemini_keys w model n (key # rest) i s =
              (if js_includes (interruption_message d) (js ''abort'')
               then (Inl (interruption_message d), snd (gemini_attempt w model key i n s))
               else if \<not> isRetryableError (interruption_message d)
               then (Inl (interruption_message d),
                     addLog Warn (js ''Key ...'' @ slice_last 6 key @ js '' failed: ''
                                  @ take 80 (interruption_message d))
                       (snd (gemini_attempt w model key i n s)))
               else gemini_keys w model n rest (i + 1)
                      (addLog Warn (js ''Key ...'' @ slice_last 6 key @ js '' failed: ''
                                    @ take 80 (interruption_message d))
                         (snd (gemini_attempt w model key i n s)))))"
proof (intro conjI impI)
  let ?ps = "lines_parts w pre"
  note rd = gemini_read_interrupted [OF assms(3-6)]
  {
    assume c: "part_texts ?ps \<noteq> [] \<or> part_images ?ps \<noteq> []"
    have att: "gemini_attempt w model key i n s =
        (Inr \<lparr>res_text = concat (part_texts ?ps), res_images = part_images ?ps\<rparr>,
         addLog Warn (js ''Stream interrupted with partial content'')
           ((onResetContent
              ((addLog Info (js ''Key ...'' @ slice_last 6 key @ js '' ('' @ show_nat (i + 1)
                             @ js ''/'' @ show_nat n @ js '')'') s)
                 \<lparr>requests := requests s @ [GeminiRequest model key]\<rparr>))
              \<lparr>ui := ui s @ ResetContent # map Chunk (part_texts ?ps)\<rparr>))"
      using c assms(2)
      by (simp add: gemini_attempt_def do_fetch_def Let_def rd addLog_def onResetContent_def)
    then have k: "gemini_keys w model n (key # rest) i s =
        (Inr \<lparr>res_text = concat (part_texts ?ps), res_images = part_images ?ps\<rparr>,
         addLog Warn (js ''Stream interrupted with partial content'')
           ((onResetContent
              ((addLog Info (js ''Key ...'' @ slice_last 6 key @ js '' ('' @ show_nat (i + 1)
                             @ js ''/'' @ show_nat n @ js '')'') s)
                 \<lparr>requests := requests s @ [GeminiRequest model key]\<rparr>))
              \<lparr>ui := ui s @ ResetContent # map Chunk (part_texts ?ps)\<rparr>))"
      using assms(1) by simp
    show "fst (gemini_keys w model n (key # rest) i s)
              = Inr \<lparr>res_text = concat (part_texts ?ps), res_images = part_images ?ps\<rparr>"
      unfolding k by simp
    show "ui (snd (gemini_keys w model n (key # rest) i s))
              = ui s @ ResetContent # map Chunk (part_texts ?ps)"
      unfolding k by (simp add: addLog_def)
    show "requests (snd (gemini_keys w model n (key # rest) i s))
              = requests s @ [GeminiRequest model key]"
      unfolding k by (simp add: addLog_def onResetContent_def)
  }
  {
    assume c: "part_texts ?ps = [] \<and> part_images ?ps = []"
    show att: "fst (gemini_attempt w model key i n s) = Inl (interruption_message d)"
      using c assms(2)
      by (simp add: gemini_attempt_def do_fetch_def Let_def rd)
    then have "gemini_attempt w model key i n s
                 = (Inl (interruption_message d), snd (gemini_attempt w model key i n s))"
      by (metis prod.collapse)
    from gemini_keys_error [OF assms(1) this]
    show "gemini_keys w model n (key # rest) i s =
              (if js_includes (interruption_message d) (js ''abort'')
               then (Inl (interruption_message d), snd (gemini_attempt w model key i n s))
               else if \<not> isRetryableError (interruption_message d)
               then (Inl (interruption_message d),
                     addLog Warn (js ''Key ...'' @ slice_last 6 key @ js '' failed: ''
                                  @ take 80 (interruption_message d))
                       (snd (gemini_attempt w model key i n s)))
               else gemini_keys w model n rest (i + 1)
                      (addLog Warn (js ''Key ...'' @ slice_last 6 key @ js '' failed: ''
                                    @ take 80 (interruption_message d))
                         (snd (gemini_attempt w model key i n s))))" .
  }
qed

text \<open>
  C4 as claimed (an interruption without content triggers key rotation) fails for a
  prompt block: its message is not retryable, and the second key is never tried.
\<close>

theorem gemini_stream_interruption_counterexample:
  "callGeminiStreaming blocked_world flash [js ''AIza-key-one'', js ''AIza-key-two''] empty_state
   = (Inl (js ''Prompt blocked: SAFETY''),
      \<lparr>requests = [GeminiRequest flash (js ''AIza-key-one'')],
       logs = [\<lparr>level = Info, message = [0x2192] @ js '' Gemini [gemini-2.0-flash] '' @ [0x2014] @ js '' 2 key(s)''\<rparr>,
               \<lparr>level = Info, message = js ''Key ...ey-one (1/2)''\<rparr>,
               \<lparr>level = Warn, message = js ''Key ...ey-one failed: Prompt blocked: SAFETY''\<rparr>],
       ui = [ResetContent]\<rparr>)"
  by (simp add: run_defs blocked_world_def first_request_world_def demo_world_def demo_parse_def line_hello_def line_world_def line_overloaded_def line_blocked_def text_event_def flash_def empty_state_def)

theorem gemini_stream_interruption_witness:
  "fst (gemini_keys interrupted_world flash 2 [js ''AIza-key-one'', js ''AIza-key-two''] 0 empty_state)
     = Inr \<lparr>res_text = js ''Hello world'', res_images = []\<rparr>
   \<and> ui (snd (gemini_keys interrupted_world flash 2 [js ''AIza-key-one'', js ''AIza-key-two''] 0
                 empty_state)) = [ResetContent, Chunk (js ''Hello ''), Chunk (js ''world'')]
   \<and> requests (snd (gemini_keys interrupted_world flash 2 [js ''AIza-key-one'', js ''AIza-key-two''] 0
                       empty_state)) = [GeminiRequest flash (js ''AIza-key-one'')]
   \<and> fst (gemini_attempt overloaded_world flash (js ''AIza-key-one'') 0 2 empty_state)
       = Inl (js ''Stream error 503: The model is overloaded.'')
   \<and> gemini_keys overloaded_world flash 2 [js ''AIza-key-one'', js ''AIza-key-two''] 0 empty_state
       = gemini_keys overloaded_world flash 2 [js ''AIza-key-two''] 1
           (addLog Warn (js ''Key ...ey-one failed: Stream error 503: The model is overloaded.'')
              (snd (gemini_attempt overloaded_world flash (js ''AIza-key-one'') 0 2 empty_state)))"
proof -
  let ?k1 = "js ''AIza-key-one''" and ?k2 = "js ''AIza-key-two''"
  let ?c1 = "[js ''data: '' @ line_hello @ [10] @ js ''data: '',
              line_world @ [10] @ js ''data: '' @ line_overloaded @ [10]]"
  let ?c2 = "[js ''data: '' @ line_overloaded @ [10]]"
  let ?pre = "[js ''data: '' @ line_hello, js ''data: '' @ line_world]"
  let ?line = "js ''data: '' @ line_overloaded"
  have n1: "\<not> signal_aborted interrupted_world empty_state"
    and n2: "\<not> signal_aborted overloaded_world empty_state"
    by (simp_all add: run_defs interrupted_world_def overloaded_world_def overloaded_event_def interruption_message_def first_request_world_def demo_world_def demo_parse_def line_hello_def line_world_def line_overloaded_def text_event_def flash_def empty_state_def line_event_def is_interruption_def interrupts_def stream_lines_def lines_parts_def event_parts_def part_texts_def part_images_def)
  have f1: "fetch interrupted_world (length (requests empty_state)) (GeminiRequest flash ?k1) = Ok ?c1 Done"
    and f2: "fetch overloaded_world (length (requests empty_state)) (GeminiRequest flash ?k1) = Ok ?c2 Done"
    by (simp_all add: run_defs interrupted_world_def overloaded_world_def overloaded_event_def interruption_message_def first_request_world_def demo_world_def demo_parse_def line_hello_def line_world_def line_overloaded_def text_event_def flash_def empty_state_def line_event_def is_interruption_def interrupts_def stream_lines_def lines_parts_def event_parts_def part_texts_def part_images_def)
  have l1: "stream_lines ?c1 = ?pre @ ?line # []"
    and l2: "stream_lines ?c2 = [] @ ?line # []"
    by (simp_all add: run_defs interrupted_world_def overloaded_world_def overloaded_event_def interruption_message_def first_request_world_def demo_world_def demo_parse_def line_hello_def line_world_def line_overloaded_def text_event_def flash_def empty_state_def line_event_def is_interruption_def interrupts_def stream_lines_def lines_parts_def event_parts_def part_texts_def part_images_def)
  have q1: "\<forall>l\<in>set ?pre. \<not> interrupts interrupted_world l"
    and q2: "\<forall>l\<in>set []. \<not> interrupts overloaded_world l"
    by (simp_all add: run_defs interrupted_world_def overloaded_world_def overloaded_event_def interruption_message_def first_request_world_def demo_world_def demo_parse_def line_hello_def line_world_def line_overloaded_def text_event_def flash_def empty_state_def line_event_def is_interruption_def interrupts_def stream_lines_def lines_parts_def event_parts_def part_texts_def part_images_def)
  have e1: "line_event interrupted_world ?line = Some overloaded_event"
    and e2: "line_event overloaded_world ?line = Some overloaded_event"
    by (simp_all add: run_defs interrupted_world_def overloaded_world_def overloaded_event_def interruption_message_def first_request_world_def demo_world_def demo_parse_def line_hello_def line_world_def line_overloaded_def text_event_def flash_def empty_state_def line_event_def is_interruption_def interrupts_def stream_lines_def lines_parts_def event_parts_def part_texts_def part_images_def)
  have i: "is_interruption overloaded_event" by (simp add: run_defs interrupted_world_def overloaded_world_def overloaded_event_def interruption_message_def first_request_world_def demo_world_def demo_parse_def line_hello_def line_world_def line_overloaded_def text_event_def flash_def empty_state_def line_event_def is_interruption_def interrupts_def stream_lines_def lines_parts_def event_parts_def part_texts_def part_images_def)
  have p1: "part_texts (lines_parts interrupted_world ?pre) = [js ''Hello '', js ''world'']
            \<and> part_images (lines_parts interrupted_world ?pre) = []"
    and p2: "part_texts (lines_parts overloaded_world []) = []
            \<and> part_images (lines_parts overloaded_world []) = []"
    by (simp_all add: run_defs interrupted_world_def overloaded_world_def overloaded_event_def interruption_message_def first_request_world_def demo_world_def demo_parse_def line_hello_def line_world_def line_overloaded_def text_event_def flash_def empty_state_def line_event_def is_interruption_def interrupts_def stream_lines_def lines_parts_def event_parts_def part_texts_def part_images_def)
  have m: "interruption_message overloaded_event = js ''Stream error 503: The model is overloaded.''
           \<and> \<not> js_includes (js ''Stream error 503: The model is overloaded.'') (js ''abort'')
           \<and> isRetryableError (js ''Stream error 503: The model is overloaded.'')
           \<and> js ''Key ...'' @ slice_last 6 ?k1 @ js '' failed: ''
                @ take 80 (js ''Stream error 503: The model is overloaded.'')
              = js ''Key ...ey-one failed: Stream error 503: The model is overloaded.''
           \<and> js ''Hello '' @ js ''world'' = js ''Hello world'' \<and> requests empty_state = []
           \<and> ui empty_state = []"
    by (simp add: run_defs interrupted_world_def overloaded_world_def overloaded_event_def interruption_message_def first_request_world_def demo_world_def demo_parse_def line_hello_def line_world_def line_overloaded_def text_event_def flash_def empty_state_def line_event_def is_interruption_def interrupts_def stream_lines_def lines_parts_def event_parts_def part_texts_def part_images_def)
  note A = gemini_stream_interruption [OF n1 f1 l1 q1 e1 i, where n = 2 and rest = "[?k2]" and i = 0]
  note B = gemini_stream_interruption [OF n2 f2 l2 q2 e2 i, where n = 2 and rest = "[?k2]" and i = 0]
  from A p1 m have a: "fst (gemini_keys interrupted_world flash 2 [?k1, ?k2] 0 empty_state)
       = Inr \<lparr>res_text = js ''Hello world'', res_images = []\<rparr>
     \<and> ui (snd (gemini_keys interrupted_world flash 2 [?k1, ?k2] 0 empty_state))
       = [ResetContent, Chunk (js ''Hello ''), Chunk (js ''world'')]
     \<and> requests (snd (gemini_keys interrupted_world flash 2 [?k1, ?k2] 0 empty_state))
       = [GeminiRequest flash ?k1]"
    by (simp del: gemini_keys.simps)
  from B p2 m have b: "fst (gemini_attempt overloaded_world flash ?k1 0 2 empty_state)
       = Inl (js ''Stream error 503: The model is overloaded.'')
     \<and> gemini_keys overloaded_world flash 2 [?k1, ?k2] 0 empty_state
       = gemini_keys overloaded_world flash 2 [?k2] 1
           (addLog Warn (js ''Key ...ey-one failed: Stream error 503: The model is overloaded.'')
              (snd (gemini_attempt overloaded_world flash ?k1 0 2 empty_state)))"
    by (simp del: gemini_keys.simps)
  from a b show ?thesis by blast
qed

section \<open>Search mode: the sources block\<close>

lemma search_chunk_distinct:
  "distinct (map url srcs) \<Longrightarrow> distinct (map url (search_chunk ch srcs))"
  by (auto simp: search_chunk_def list_ex_iff split: option.splits)

lemma search_chunk_urls:
  "set (map url (search_chunk ch srcs))
     = set (map url srcs) \<union> {uri wb |wb. ch = Some wb \<and> uri wb \<noteq> []}"
  by (auto simp: search_chunk_def list_ex_iff image_iff split: option.splits) metis

lemma fold_search_chunk_distinct:
  "distinct (map url srcs) \<Longrightarrow> distinct (map url (fold search_chunk chunks srcs))"
  by (induction chunks arbitrary: srcs) (simp_all add: search_chunk_distinct)

lemma fold_search_chunk_urls:
  "set (map url (fold search_chunk chunks srcs))
     = set (map url srcs) \<union> {uri wb |wb. Some wb \<in> set chunks \<and> uri wb \<noteq> []}"
proof (induction chunks arbitrary: srcs)
  case Nil
  then show ?case by simp
next
  case (Cons ch chunks)
  show ?case
    unfolding fold_simps Cons.IH search_chunk_urls by auto
qed

lemma fold_search_part_sources:
  "fold search_part ps (a, s) = (a', s') \<Longrightarrow> sources a' = sources a"
proof (induction ps arbitrary: a s)
  case Nil
  then show ?case by simp
next
  case (Cons p ps)
  obtain a1 s1 where p: "search_part p (a, s) = (a1, s1)"
    by (cases "search_part p (a, s)")
  then have "sources a1 = sources a"
    by (auto simp: search_part_def split: if_splits)
  moreover from Cons.prems p have "fold search_part ps (a1, s1) = (a', s')" by simp
  then have "sources a' = sources a1" by (rule Cons.IH)
  ultimately show ?case by simp
qed

lemma search_data_distinct:
  assumes "distinct (map url (sources a))" and "search_data d a s = (r, s')"
  shows "distinct_urls r"
  using assms
  by (auto simp: search_data_def distinct_urls_def fold_search_chunk_distinct
      split: option.splits list.splits prod.splits dest!: fold_search_part_sources)

lemma search_line_distinct:
  assumes "distinct (map url (sources a))" and "search_line w l a s = (r, s')"
  shows "distinct_urls r"
proof (cases "startsWith l (js ''data: '') \<and> js_trim (drop 6 l) \<noteq> []
              \<and> js_trim (drop 6 l) \<noteq> js ''[DONE]''")
  case False
  with assms show ?thesis
    by (auto simp: search_line_def Let_def distinct_urls_def split: if_splits)
next
  case t: True
  show ?thesis
  proof (cases "JSON_parse_gemini w (js_trim (drop 6 l))")
    case None
    with t assms show ?thesis
      by (auto simp: search_line_def Let_def distinct_urls_def)
  next
    case (Some d)
    obtain r1 s1 where d: "search_data d a s = (r1, s1)"
      by (cases "search_data d a s")
    from search_data_distinct [OF assms(1) d] have "distinct_urls r1" .
    with t Some d assms show ?thesis
      by (auto simp: search_line_def Let_def distinct_urls_def split: flow.splits if_splits)
  qed
qed

lemma search_lines_distinct:
  assumes "distinct (map url (sources a))" and "search_lines w ls a s = (r, s')"
  shows "distinct_urls r"
  using assms
proof (induction ls arbitrary: a s)
  case Nil
  then show ?case by (auto simp: distinct_urls_def)
next
  case (Cons l ls)
  obtain r1 s1 where l: "search_line w l a s = (r1, s1)"
    by (cases "search_line w l a s")
  from search_line_distinct [OF Cons.prems(1) l] have g: "distinct_urls r1" .
  show ?case
  proof (cases r1)
    case (Next a1)
    with g have "distinct (map url (sources a1))" by (simp add: distinct_urls_def)
    moreover from Cons.prems(2) l Next have "search_lines w ls a1 s1 = (r, s')" by simp
    ultimately show ?thesis by (rule Cons.IH)
  next
    case (Return x)
    with Cons.prems(2) l g show ?thesis by auto
  next
    case (Throw m)
    with Cons.prems(2) l g show ?thesis by auto
  qed
qed

lemma search_read_distinct:
  assumes "distinct (map url (sources a))" and "search_read w cs e buf a s = (r, s')"
  shows "distinct_urls r"
  using assms
proof (induction cs arbitrary: buf a s)
  case Nil
  then show ?case by (auto simp: distinct_urls_def split: stream_end.splits)
next
  case (Cons c cs)
  obtain r1 s1 where l: "search_lines w (butlast (js_split 10 (buf @ c))) a s = (r1, s1)"
    by (cases "search_lines w (butlast (js_split 10 (buf @ c))) a s")
  from search_lines_distinct [OF Cons.prems(1) l] have g: "distinct_urls r1" .
  show ?case
  proof (cases r1)
    case (Next a1)
    with g have "distinct (map url (sources a1))" by (simp add: distinct_urls_def)
    moreover from Cons.prems(2) l Next
    have "search_read w cs e (last (js_split 10 (buf @ c))) a1 s1 = (r, s')"
      by (simp add: Let_def)
    ultimately show ?thesis by (rule Cons.IH)
  next
    case (Return x)
    with Cons.prems(2) l g show ?thesis by (auto simp: Let_def)
  next
    case (Throw m)
    with Cons.prems(2) l g show ?thesis by (auto simp: Let_def)
  qed
qed

lemma search_attempt_distinct:
  assumes "search_attempt w model key s = (Inr r, s')"
  shows "distinct (map url (sr_sources r))"
proof -
  let ?init = "\<lparr>searchText = [], sources = [], gotSearchContent = False\<rparr>"
  have rd: "distinct_urls r1" if "search_read w chunks e [] ?init s2 = (r1, s3)"
    for chunks e s2 r1 s3
    using search_read_distinct [OF _ that] by simp
  from assms show ?thesis
    by (auto simp: search_attempt_def do_fetch_def Let_def distinct_urls_def
        split: prod.splits fetch_outcome.splits sum.splits flow.splits if_splits
        dest!: rd)
qed

lemma search_keys_distinct:
  "search_keys w model keys s = (Return r, s') \<Longrightarrow> distinct (map url (sr_sources r))"
proof (induction keys arbitrary: s)
  case Nil
  then show ?case by simp
next
  case (Cons key keys)
  obtain r1 s1 where a: "search_attempt w model key s = (r1, s1)"
    by (cases "search_attempt w model key s")
  show ?case
  proof (cases r1)
    case (Inr res)
    with Cons.prems a search_attempt_distinct [of w model key s res s1] show ?thesis
      by (auto split: if_splits)
  next
    case (Inl m)
    with Cons.prems a Cons.IH show ?thesis
      by (auto split: if_splits)
  qed
qed

lemma search_models_distinct:
  "search_models w ms keys s = (Inr r, s') \<Longrightarrow> distinct (map url (sr_sources r))"
proof (induction ms arbitrary: s)
  case Nil
  then show ?case by simp
next
  case (Cons model ms)
  then show ?case
    by (auto split: prod.splits flow.splits dest: search_keys_distinct)
qed

lemma callGeminiWithSearch_distinct:
  "callGeminiWithSearch w keys s = (Inr r, s') \<Longrightarrow> distinct (map url (sr_sources r))"
  unfolding callGeminiWithSearch_def Let_def by (rule search_models_distinct)

text \<open>
  C5 (as the code has it). When the query is not empty, a Google key is configured and
  the grounded call succeeds with at least one source, search mode returns the answer
  text, then a blank line and \<open><!--SOURCES-->\<close> on a line of its own, then one line
  \<open>- [title](url)\<close> per source, then \<open><!--/SOURCES-->\<close>, and an empty image list.
  The title of a line is the title of the source; without one it is the host name of
  the URL, and the URL itself when the URL does not parse. No two sources have the same
  URL: a grounding chunk adds a source only for a non-empty URL that is not among the
  sources yet, so the URLs after a chunk list are those before and those of the
  chunks, each once.
\<close>

theorem search_mode_sources_block:
  assumes "messages \<noteq> []" and "js_trim (content (last messages)) \<noteq> []"
    and "googleKeys config \<noteq> []"
    and "callGeminiWithSearch w (googleKeys config)
           (onResetContent (addLog Info ([0xD83D, 0xDD0D] @ js '' AI Search starting...'') s))
         = (Inr result, s')"
    and "sr_sources result \<noteq> []"
  shows "callSearchMode w messages config s =
           (Inr \<lparr>res_text =
                   sr_text result @ [10, 10] @ js ''<!--SOURCES-->'' @ [10]
                   @ concat (map (\<lambda>src. js ''- [''
                                    @ (if title src \<noteq> [] then title src
                                       else (case URL_hostname w (url src) of
                                               Some h \<Rightarrow> h | None \<Rightarrow> url src))
                                    @ js '']('' @ url src @ js '')'' @ [10])
                               (sr_sources result))
                   @ js ''<!--/SOURCES-->'',
                 res_images = []\<rparr>, s')
         \<and> distinct (map url (sr_sources result))
         \<and> (distinct (map url srcs) \<longrightarrow>
              distinct (map url (fold search_chunk chunks srcs))
              \<and> set (map url (fold search_chunk chunks srcs))
                  = set (map url srcs) \<union> {uri wb |wb. Some wb \<in> set chunks \<and> uri wb \<noteq> []})"
proof (intro conjI impI)
  have "source_line w = (\<lambda>src. js ''- [''
                                    @ (if title src \<noteq> [] then title src
                                       else (case URL_hostname w (url src) of
                                               Some h \<Rightarrow> h | None \<Rightarrow> url src))
                                    @ js '']('' @ url src @ js '')'' @ [10])"
    by (rule ext) (simp add: source_line_def source_title_def)
  with assms show "callSearchMode w messages config s =
           (Inr \<lparr>res_text =
                   sr_text result @ [10, 10] @ js ''<!--SOURCES-->'' @ [10]
                   @ concat (map (\<lambda>src. js ''- [''
                                    @ (if title src \<noteq> [] then title src
                                       else (case URL_hostname w (url src) of
                                               Some h \<Rightarrow> h | None \<Rightarrow> url src))
                                    @ js '']('' @ url src @ js '')'' @ [10])
                               (sr_sources result))
                   @ js ''<!--/SOURCES-->'',
                 res_images = []\<rparr>, s')"
    by (auto simp: callSearchMode_def append_sources_def split: list.splits)
  show "distinct (map url (sr_sources result))"
    by (rule callGeminiWithSearch_distinct [OF assms(4)])
next
  assume "distinct (map url srcs)"
  then show "distinct (map url (fold search_chunk chunks srcs))"
    by (rule fold_search_chunk_distinct)
  show "set (map url (fold search_chunk chunks srcs))
          = set (map url srcs) \<union> {uri wb |wb. Some wb \<in> set chunks \<and> uri wb \<noteq> []}"
    by (rule fold_search_chunk_urls)
qed

text \<open>
  C5 as claimed (the host name is the title whenever the source has none) fails for a
  source whose URL does not parse: its line carries the URL as title.
\<close>

theorem search_mode_sources_block_counterexample:
  "fst (callSearchMode grounded_world [user_message (js ''news'')] demo_config empty_state)
     = Inr \<lparr>res_text = js ''Answer'' @ [10, 10] @ js ''<!--SOURCES-->'' @ [10]
                        @ js ''- [example.com](https://example.com/a)'' @ [10]
                        @ js ''- [no scheme](no scheme)'' @ [10]
                        @ js ''<!--/SOURCES-->'',
            res_images = []\<rparr>
   \<and> URL_hostname grounded_world (js ''no scheme'') = None"
  by (simp add: run_defs grounded_world_def demo_world_def demo_parse_def demo_hostname_def line_hello_def line_world_def line_overloaded_def line_blocked_def line_grounded_def demo_config_def user_message_def empty_state_def)

theorem search_mode_sources_block_witness:
  "callSearchMode grounded_world [user_message (js ''news'')] demo_config empty_state
     = (Inr \<lparr>res_text = js ''Answer'' @ [10, 10] @ js ''<!--SOURCES-->'' @ [10]
                         @ js ''- [example.com](https://example.com/a)'' @ [10]
                         @ js ''- [no scheme](no scheme)'' @ [10]
                         @ js ''<!--/SOURCES-->'',
             res_images = []\<rparr>,
        snd (callGeminiWithSearch grounded_world (googleKeys demo_config)
               (onResetContent
                  (addLog Info ([0xD83D, 0xDD0D] @ js '' AI Search starting...'') empty_state))))
   \<and> map url (fold search_chunk
                 [Some \<lparr>uri = js ''https://example.com/a'', web_title = []\<rparr>,
                  Some \<lparr>uri = js ''https://example.com/a'', web_title = js ''Example''\<rparr>] [])
       = [js ''https://example.com/a'']"
proof -
  let ?m = "[user_message (js ''news'')]"
  let ?c = "callGeminiWithSearch grounded_world (googleKeys demo_config)
              (onResetContent
                 (addLog Info ([0xD83D, 0xDD0D] @ js '' AI Search starting...'') empty_state))"
  have h1: "?m \<noteq> []" by simp
  have h2: "js_trim (content (last ?m)) \<noteq> []" by (simp add: run_defs grounded_world_def grounded_result_def demo_world_def demo_parse_def demo_hostname_def line_hello_def line_world_def line_overloaded_def line_blocked_def line_grounded_def demo_config_def user_message_def empty_state_def)
  have h3: "googleKeys demo_config \<noteq> []" by (simp add: run_defs grounded_world_def grounded_result_def demo_world_def demo_parse_def demo_hostname_def line_hello_def line_world_def line_overloaded_def line_blocked_def line_grounded_def demo_config_def user_message_def empty_state_def)
  have "fst ?c = Inr grounded_result" by (simp add: run_defs grounded_world_def grounded_result_def demo_world_def demo_parse_def demo_hostname_def line_hello_def line_world_def line_overloaded_def line_blocked_def line_grounded_def demo_config_def user_message_def empty_state_def)
  then have h4: "?c = (Inr grounded_result, snd ?c)" by (metis prod.collapse)
  have h5: "sr_sources grounded_result \<noteq> []" by (simp add: run_defs grounded_world_def grounded_result_def demo_world_def demo_parse_def demo_hostname_def line_hello_def line_world_def line_overloaded_def line_blocked_def line_grounded_def demo_config_def user_message_def empty_state_def)
  have t: "sr_text grounded_result @ [10, 10] @ js ''<!--SOURCES-->'' @ [10]
           @ concat (map (\<lambda>src. js ''- [''
                            @ (if title src \<noteq> [] then title src
                               else (case URL_hostname grounded_world (url src) of
                                       Some h \<Rightarrow> h | None \<Rightarrow> url src))
                            @ js '']('' @ url src @ js '')'' @ [10])
                       (sr_sources grounded_result))
           @ js ''<!--/SOURCES-->''
         = js ''Answer'' @ [10, 10] @ js ''<!--SOURCES-->'' @ [10]
           @ js ''- [example.com](https://example.com/a)'' @ [10]
           @ js ''- [no scheme](no scheme)'' @ [10]
           @ js ''<!--/SOURCES-->''"
    by (simp add: run_defs grounded_world_def grounded_result_def demo_world_def demo_parse_def demo_hostname_def line_hello_def line_world_def line_overloaded_def line_blocked_def line_grounded_def demo_config_def user_message_def empty_state_def)
  have u: "map url (fold search_chunk
                 [Some \<lparr>uri = js ''https://example.com/a'', web_title = []\<rparr>,
                  Some \<lparr>uri = js ''https://example.com/a'', web_title = js ''Example''\<rparr>] [])
       = [js ''https://example.com/a'']"
    by (simp add: run_defs grounded_world_def grounded_result_def demo_world_def demo_parse_def demo_hostname_def line_hello_def line_world_def line_overloaded_def line_blocked_def line_grounded_def demo_config_def user_message_def empty_state_def)
  from search_mode_sources_block [OF h1 h2 h3 h4 h5] t u show ?thesis by simp
qed

section \<open>Auto mode: candidates\<close>




text \<open>
  C9. The error raised when every key has failed, \<open>All N keys failed for <model>.\<close>,
  matches the retryable pattern through \<open>keys? failed\<close>, for every count and every
  model name. For a candidate of a Google-backed strategy of the table the message does
  not contain \<open>abort\<close> either, so when the Gemini caller ends with it, the auto-mode
  loop records the failure and goes on with the next candidate.
\<close>

theorem exhausted_keys_advance_auto_mode:
  "isRetryableError (js ''All '' @ show_nat k @ js '' keys failed for '' @ modelName @ js ''.'')
   \<and> gemini_keys w modelName k [] j s0
       = (Inl (js ''All '' @ show_nat k @ js '' keys failed for '' @ modelName @ js ''.''),
          addLog Err (js ''All '' @ show_nat k @ js '' keys exhausted for '' @ modelName) s0)
   \<and> ((autoKey, c) \<in> set AUTO_MODES \<and> provider c = Google \<and> modelName \<in> set (models c)
        \<and> \<not> signal_aborted w s
        \<and> callGeminiStreaming w modelName (googleKeys config)
             (onResetContent
                (addLog Info (js ''Auto: trying '' @ getModelShortName modelName @ js '' (''
                              @ show_nat (i + 1) @ js ''/'' @ show_nat n @ js '')'') s))
           = (Inl (js ''All '' @ show_nat k @ js '' keys failed for '' @ modelName @ js ''.''), s2)
      \<longrightarrow> auto_models w c config n (modelName # rest) i allErrors s
          = auto_models w c config n rest (i + 1)
              (allErrors @ [getModelShortName modelName @ js '': ''
                            @ take 80 (js ''All '' @ show_nat k @ js '' keys failed for ''
                                       @ modelName @ js ''.'')])
              (addLog Warn (js ''Auto: '' @ getModelShortName modelName
                            @ js '' failed, trying next...'') s2))"
proof (intro conjI impI)
  show "isRetryableError (js ''All '' @ show_nat k @ js '' keys failed for '' @ modelName @ js ''.'')"
    by (rule all_keys_failed_retryable)
  show "gemini_keys w modelName k [] j s0
       = (Inl (js ''All '' @ show_nat k @ js '' keys failed for '' @ modelName @ js ''.''),
          addLog Err (js ''All '' @ show_nat k @ js '' keys exhausted for '' @ modelName) s0)"
    by simp
next
  let ?msg = "js ''All '' @ show_nat k @ js '' keys failed for '' @ modelName @ js ''.''"
  assume h: "(autoKey, c) \<in> set AUTO_MODES \<and> provider c = Google \<and> modelName \<in> set (models c)
        \<and> \<not> signal_aborted w s
        \<and> callGeminiStreaming w modelName (googleKeys config)
             (onResetContent
                (addLog Info (js ''Auto: trying '' @ getModelShortName modelName @ js '' (''
                              @ show_nat (i + 1) @ js ''/'' @ show_nat n @ js '')'') s))
           = (Inl ?msg, s2)"
  from h have "\<not> js_includes (js '' keys failed for '' @ modelName @ js ''.'') (js ''abort'')"
    using google_candidates by blast
  then have na: "\<not> js_includes ?msg (js ''abort'')"
    by (rule all_keys_failed_no_abort)
  have r: "isRetryableError ?msg" by (rule all_keys_failed_retryable)
  from h na r show "auto_models w c config n (modelName # rest) i allErrors s
          = auto_models w c config n rest (i + 1)
              (allErrors @ [getModelShortName modelName @ js '': '' @ take 80 ?msg])
              (addLog Warn (js ''Auto: '' @ getModelShortName modelName
                            @ js '' failed, trying next...'') s2)"
    by (simp add: Let_def)
qed

theorem exhausted_keys_advance_auto_mode_witness:
  "auto_models overloaded_model_world auto_gemini_pro demo_config 2
       [js ''gemini-3-pro-preview'', js ''gemini-2.5-pro''] 0 [] empty_state
     = auto_models overloaded_model_world auto_gemini_pro demo_config 2 [js ''gemini-2.5-pro''] 1
         [js ''gemini-3-pro-preview: All 2 keys failed for gemini-3-pro-preview.'']
         (addLog Warn (js ''Auto: gemini-3-pro-preview failed, trying next...'')
            (snd (callGeminiStreaming overloaded_model_world (js ''gemini-3-pro-preview'')
                    (googleKeys demo_config)
                    (onResetContent
                       (addLog Info (js ''Auto: trying gemini-3-pro-preview (1/2)'') empty_state)))))
   \<and> fst (generateResponse overloaded_model_world [user_message (js ''Hi'')] (js ''auto-gemini-pro'')
            demo_config empty_state) = Inr \<lparr>res_text = js ''Hello '', res_images = []\<rparr>
   \<and> requests (snd (generateResponse overloaded_model_world [user_message (js ''Hi'')]
                      (js ''auto-gemini-pro'') demo_config empty_state))
       = [GeminiRequest (js ''gemini-3-pro-preview'') (js ''AIza-key-one''),
          GeminiRequest (js ''gemini-3-pro-preview'') (js ''AIza-key-two''),
          GeminiRequest (js ''gemini-2.5-pro'') (js ''AIza-key-one'')]"
proof -
  let ?w = overloaded_model_world
  let ?m = "js ''gemini-3-pro-preview''"
  let ?s1 = "onResetContent (addLog Info (js ''Auto: trying '' @ getModelShortName ?m @ js '' (''
                              @ show_nat (0 + 1) @ js ''/'' @ show_nat 2 @ js '')'') empty_state)"
  let ?t = "callGeminiStreaming ?w ?m (googleKeys demo_config) ?s1"
  have "fst ?t = Inl (js ''All '' @ show_nat 2 @ js '' keys failed for '' @ ?m @ js ''.'')"
    by (simp add: run_defs overloaded_model_world_def auto_gemini_pro_def demo_world_def demo_parse_def line_hello_def text_event_def demo_config_def user_message_def empty_state_def)
  then have t: "?t = (Inl (js ''All '' @ show_nat 2 @ js '' keys failed for '' @ ?m @ js ''.''), snd ?t)"
    by (metis prod.collapse)
  have h: "(js ''auto-gemini-pro'', auto_gemini_pro) \<in> set AUTO_MODES
           \<and> provider auto_gemini_pro = Google \<and> ?m \<in> set (models auto_gemini_pro)
           \<and> \<not> signal_aborted ?w empty_state"
    by (simp add: run_defs overloaded_model_world_def auto_gemini_pro_def demo_world_def demo_parse_def line_hello_def text_event_def demo_config_def user_message_def empty_state_def)
  have l: "getModelShortName ?m = ?m
           \<and> js ''All '' @ show_nat 2 @ js '' keys failed for '' @ ?m @ js ''.''
               = js ''All 2 keys failed for gemini-3-pro-preview.''
           \<and> take 80 (js ''All 2 keys failed for gemini-3-pro-preview.'')
               = js ''All 2 keys failed for gemini-3-pro-preview.''
           \<and> ?m @ js '': '' @ js ''All 2 keys failed for gemini-3-pro-preview.''
               = js ''gemini-3-pro-preview: All 2 keys failed for gemini-3-pro-preview.''
           \<and> js ''Auto: '' @ ?m @ js '' failed, trying next...''
               = js ''Auto: gemini-3-pro-preview failed, trying next...''
           \<and> js ''Auto: trying '' @ ?m @ js '' ('' @ show_nat (0 + 1) @ js ''/'' @ show_nat 2 @ js '')''
               = js ''Auto: trying gemini-3-pro-preview (1/2)''"
    by (simp add: run_defs overloaded_model_world_def auto_gemini_pro_def demo_world_def demo_parse_def line_hello_def text_event_def demo_config_def user_message_def empty_state_def)
  have e: "fst (generateResponse ?w [user_message (js ''Hi'')] (js ''auto-gemini-pro'')
            demo_config empty_state) = Inr \<lparr>res_text = js ''Hello '', res_images = []\<rparr>
     \<and> requests (snd (generateResponse ?w [user_message (js ''Hi'')]
                      (js ''auto-gemini-pro'') demo_config empty_state))
       = [GeminiRequest (js ''gemini-3-pro-preview'') (js ''AIza-key-one''),
          GeminiRequest (js ''gemini-3-pro-preview'') (js ''AIza-key-two''),
          GeminiRequest (js ''gemini-2.5-pro'') (js ''AIza-key-one'')]"
    by (simp add: run_defs overloaded_model_world_def auto_gemini_pro_def demo_world_def demo_parse_def line_hello_def text_event_def demo_config_def user_message_def empty_state_def)
  note A = exhausted_keys_advance_auto_mode [THEN conjunct2, THEN conjunct2, rule_format,
      of "js ''auto-gemini-pro''" auto_gemini_pro ?m ?w empty_state demo_config 0 2 2 "snd ?t"
         "[js ''gemini-2.5-pro'']" "[]"]
  have "auto_models ?w auto_gemini_pro demo_config 2 [?m, js ''gemini-2.5-pro''] 0 [] empty_state
     = auto_models ?w auto_gemini_pro demo_config 2 [js ''gemini-2.5-pro''] (0 + 1)
         ([] @ [getModelShortName ?m @ js '': ''
                @ take 80 (js ''All '' @ show_nat 2 @ js '' keys failed for '' @ ?m @ js ''.'')])
         (addLog Warn (js ''Auto: '' @ getModelShortName ?m @ js '' failed, trying next...'') (snd ?t))"
    using h t by (intro A) simp
  with l e show ?thesis by (simp del: auto_models.simps)
qed

section \<open>Cancellation\<close>




text \<open>
  From the router down: every request is refused with 503 and the signal fires after the
  first one. The second key is never tried and auto mode does not go on to the second
  model.
\<close>

lemma cancellation_end_to_end:
  "fst (generateResponse cancel_after_first_world [user_message (js ''Hi'')] (js ''auto-gemini-pro'')
          demo_config empty_state) = Inl (js ''Request aborted'')
   \<and> requests (snd (generateResponse cancel_after_first_world [user_message (js ''Hi'')]
                      (js ''auto-gemini-pro'') demo_config empty_state))
       = [GeminiRequest (js ''gemini-3-pro-preview'') (js ''AIza-key-one'')]"
  by (simp add: run_defs cancel_after_first_world_def demo_world_def demo_config_def user_message_def empty_state_def)


section \<open>The chat-completion callers\<close>

text \<open>
  C8. A result of the OpenRouter caller or of the SambaNova caller has the empty list as
  its images. (The field is part of the record: it is never absent.)
\<close>

theorem openai_callers_no_images:
  "(callOpenRouter w model apiKey s = (Inr r, s') \<longrightarrow> res_images r = [])
   \<and> (callSambaNovaStreaming w model apiKey s = (Inr r, s') \<longrightarrow> res_images r = [])"
  by (auto simp: callOpenRouter_def callSambaNovaStreaming_def Let_def
      split: if_splits prod.splits fetch_outcome.splits sum.splits)

lemma chat_openrouter:
  "fst (callOpenRouter chat_world (js ''deepseek/deepseek-r1-0528:free'') (js ''sk-or-demo'') empty_state)
     = Inr \<lparr>res_text = js ''Hi'', res_images = []\<rparr>"
  by (simp add: run_defs chat_world_def demo_world_def demo_delta_def line_delta_def empty_state_def)

lemma chat_samba:
  "fst (callSambaNovaStreaming chat_world (js ''DeepSeek-V3.1'') (js ''samba-demo'') empty_state)
     = Inr \<lparr>res_text = js ''Hi'', res_images = []\<rparr>"
  by (simp add: run_defs chat_world_def demo_world_def demo_delta_def line_delta_def empty_state_def)

theorem openai_callers_no_images_witness:
  "res_images (projr (fst (callOpenRouter chat_world (js ''deepseek/deepseek-r1-0528:free'')
      (js ''sk-or-demo'') empty_state))) = []
   \<and> res_text (projr (fst (callOpenRouter chat_world (js ''deepseek/deepseek-r1-0528:free'')
      (js ''sk-or-demo'') empty_state))) = js ''Hi''
   \<and> res_images (projr (fst (callSambaNovaStreaming chat_world (js ''DeepSeek-V3.1'')
      (js ''samba-demo'') empty_state))) = []"
proof -
  let ?a = "callOpenRouter chat_world (js ''deepseek/deepseek-r1-0528:free'') (js ''sk-or-demo'') empty_state"
  let ?b = "callSambaNovaStreaming chat_world (js ''DeepSeek-V3.1'') (js ''samba-demo'') empty_state"
  have a: "?a = (Inr \<lparr>res_text = js ''Hi'', res_images = []\<rparr>, snd ?a)"
    using chat_openrouter by (metis prod.collapse)
  have b: "?b = (Inr \<lparr>res_text = js ''Hi'', res_images = []\<rparr>, snd ?b)"
    using chat_samba by (metis prod.collapse)
  from openai_callers_no_images [THEN conjunct1, rule_format, OF a]
       openai_callers_no_images [THEN conjunct2, rule_format, OF b]
  show ?thesis using chat_openrouter chat_samba by simp
qed

section \<open>The router\<close>

text \<open>
  C10. In search mode the query is the content of the last message, the empty string
  when there is no message. When it is empty or consists of white space only, the call
  fails with \<open>Empty query\<close> and the state is the one it started from: no log entry, no
  reset, no chunk and no request precede the error.
\<close>

theorem search_mode_empty_query:
  assumes "messages = [] \<or> list_all is_js_space (content (last messages))"
  shows "generateResponse w messages (js ''auto-search'') config s = (Inl (js ''Empty query''), s)"
  using assms
  by (auto simp: generateResponse_def callSearchMode_def js_trim_empty_iff split: list.splits)

theorem search_mode_empty_query_witness:
  "generateResponse silent_world [user_message (js ''  '' @ [9, 0xA0])] (js ''auto-search'')
     demo_config empty_state = (Inl (js ''Empty query''), empty_state)"
proof -
  have h: "list_all is_js_space (content (last [user_message (js ''  '' @ [9, 0xA0])]))"
    by (simp add: is_js_space_def js_def user_message_def)
  show ?thesis
    by (rule search_mode_empty_query) (use h in blast)
qed

lemma match_here_literal: "match_here False (map Ch p) s = startsWith s p"
  by (induction p arbitrary: s) (auto simp: ch_eq_def split: list.splits)

lemma isSambaModel_prefix:
  "match_alts False [lit ''DeepSeek-'', lit ''gpt-oss-''] model
     = (startsWith model (js ''DeepSeek-'') \<or> startsWith model (js ''gpt-oss-''))"
  by (simp add: match_alts_def lit_def match_here_literal)

text \<open>
  For every identifier that is not the name of an inherited property the router
  dispatches as C6 says.
\<close>

lemma generateResponse_dispatch:
  assumes "model \<notin> set object_prototype_properties"
  shows "generateResponse w messages model config s =
     (if model = js ''auto-search'' then callSearchMode w messages config s
      else if model \<in> fst ` set AUTO_MODES then callAutoMode w model config s
      else if startsWith model (js ''gemini'')
      then callGeminiStreaming w model (googleKeys config) s
      else if startsWith model (js ''DeepSeek-'') \<or> startsWith model (js ''gpt-oss-'')
      then callSambaNovaStreaming w model (sambaKey config) s
      else callOpenRouter w model (openrouterKey config) s)"
proof -
  have "isAutoMode model = (map_of AUTO_MODES model \<noteq> None)"
    using assms
    by (auto simp: isAutoMode_def AUTO_MODES_get_def split: option.splits)
  then have a: "isAutoMode model = (model \<in> fst ` set AUTO_MODES)"
    by (simp add: map_of_eq_None_iff)
  show ?thesis
    by (simp add: generateResponse_def a isGoogleModel_def isSambaModel_def isSambaModel_prefix)
qed

text \<open>
  C6. The router asks \<open>model in AUTO_MODES\<close>, which is also true of the names inherited
  from \<open>Object.prototype\<close>. The identifier \<open>constructor\<close> is no key of the table, does
  not start with \<open>gemini\<close> and matches neither SambaNova prefix, yet it is sent to auto
  mode, where spreading the missing model list throws; no request is made.
\<close>

theorem generateResponse_inherited_name:
  "generateResponse w messages (js ''constructor'') config s = (Inl (spread_undefined w), s)
   \<and> map_of AUTO_MODES (js ''constructor'') = None
   \<and> \<not> startsWith (js ''constructor'') (js ''gemini'')
   \<and> \<not> match_alts False [lit ''DeepSeek-'', lit ''gpt-oss-''] (js ''constructor'')"
  by (simp add: generateResponse_def isAutoMode_def callAutoMode_def AUTO_MODES_get_def
      AUTO_MODES_def object_prototype_properties_def js_def match_alts_def lit_def ch_eq_def)

end
